theory Spec2Isabelle
  imports Main "HOL-Library.Word"
begin

section \<open>Byte strings and hub errors\<close>

text \<open>
  A \<^verbatim>\<open>Uint8Array\<close> is a list of 8-bit words.  A \<^verbatim>\<open>HubError\<close> carries an error code
  and a message; \<^verbatim>\<open>HubResult<T>\<close> is the neverthrow result type, with \<open>Inl\<close> for
  \<^verbatim>\<open>err(e)\<close> and \<open>Inr\<close> for \<^verbatim>\<open>ok(v)\<close>.

  Every error that the engine constructs itself has the code
  \<^verbatim>\<open>bad_request.validation_failure\<close>; its kinds differ by the message.  The request
  errors and the authorization errors of the specification are these errors:
  \<^verbatim>\<open>unknown user\<close> is the unknown-account error, \<^verbatim>\<open>invalid signer\<close> the
  invalid-signer error, the message about the fname custody address the fname custody
  mismatch, and \<^verbatim>\<open>invalid message type\<close> and \<^verbatim>\<open>invalid event type\<close> the two request
  errors of the merge operations.  The specification calls the operations of the engine
  \<^verbatim>\<open>validate\<close>, \<^verbatim>\<open>mergeOne\<close>, \<^verbatim>\<open>mergeMany\<close>, \<^verbatim>\<open>applyCustodyEvent\<close>,
  \<^verbatim>\<open>applyNameEvent\<close> and \<^verbatim>\<open>revokeBySigner\<close>; the names below are those of the source.
\<close>

type_synonym bytes = "8 word list"

datatype HubError = HubError (errCode: string) (errMessage: string)

type_synonym 'a HubResult = "HubError + 'a"

section \<open>bytes32ToBytes\<close>

text \<open>
  JavaScript's \<^verbatim>\<open>String.prototype.substring(start, end)\<close>: an index below zero counts as
  zero, an index beyond the length counts as the length, and the two indices are swapped
  when the first is the larger one.  With one argument the end is the length.
\<close>

definition clampIndex :: "nat \<Rightarrow> int \<Rightarrow> nat" where
  "clampIndex len i = (if i < 0 then 0 else if int len < i then len else nat i)"

definition substring :: "string \<Rightarrow> int \<Rightarrow> int \<Rightarrow> string" where
  "substring s start end =
     (let a = clampIndex (length s) start;
          b = clampIndex (length s) end
      in take (max a b - min a b) (drop (min a b) s))"

definition substringFrom :: "string \<Rightarrow> int \<Rightarrow> string" where
  "substringFrom s start = substring s start (int (length s))"

text \<open>
  \<^verbatim>\<open>BigInt.prototype.toString(16)\<close>: lower-case hexadecimal digits without leading
  zeros, a single \<^verbatim>\<open>0\<close> for zero, and a leading minus sign for a negative value.
\<close>

definition hexDigit :: "nat \<Rightarrow> char" where
  "hexDigit d = ''0123456789abcdef'' ! d"

function toHexNat :: "nat \<Rightarrow> string" where
  "toHexNat n = (if n < 16 then [hexDigit n] else toHexNat (n div 16) @ [hexDigit (n mod 16)])"
  by pat_completeness auto
termination
  by (relation "measure (\<lambda>n. n)") auto

declare toHexNat.simps [simp del]

definition toString16 :: "int \<Rightarrow> string" where
  "toString16 v = (if v < 0 then CHR ''-'' # toHexNat (nat (- v)) else toHexNat (nat v))"

text \<open>
  The loop of \<^verbatim>\<open>bytes32ToBytes\<close>:
  \<^verbatim>\<open>while (hex.substring(hex.length - 2) === '00') { hex = hex.substring(0, hex.length - 2); }\<close>
  The recursion is justified by the length of the string, which the termination proof
  shows to decrease in every iteration.
\<close>

function removeRightPadding :: "string \<Rightarrow> string" where
  "removeRightPadding hex =
     (if substringFrom hex (int (length hex) - 2) = ''00''
      then removeRightPadding (substring hex 0 (int (length hex) - 2))
      else hex)"
  by pat_completeness auto
termination
proof (relation "measure length")
  show "wf (measure length)" by simp
next
  fix hex :: string
  assume h: "substringFrom hex (int (length hex) - 2) = ''00''"
  have "length (substringFrom hex (int (length hex) - 2)) \<le> length hex"
    by (simp add: substringFrom_def substring_def Let_def)
  with h have "2 \<le> length hex" by simp
  then show "(substring hex 0 (int (length hex) - 2), hex) \<in> measure length"
    by (simp add: substring_def clampIndex_def Let_def)
qed

declare removeRightPadding.simps [simp del]

text \<open>
  \<^verbatim>\<open>hexStringToBytes\<close> comes from the package \<^verbatim>\<open>@farcaster/utils\<close>; it is a parameter
  of the model.
\<close>

definition bytes32ToBytes :: "(string \<Rightarrow> bytes HubResult) \<Rightarrow> int \<Rightarrow> bytes HubResult" where
  "bytes32ToBytes hexStringToBytes value = hexStringToBytes (removeRightPadding (toString16 value))"

text \<open>
  The padding removal as the specification words it, to compare the loop with: every
  trailing two-character group \<^verbatim>\<open>00\<close> is removed.  \<open>dropLeading00\<close> works on the reversed
  string.
\<close>

fun dropLeading00 :: "string \<Rightarrow> string" where
  "dropLeading00 (a # b # r) = (if a = CHR ''0'' \<and> b = CHR ''0'' then dropLeading00 r else a # b # r)"
| "dropLeading00 s = s"

definition stripTrailing00 :: "string \<Rightarrow> string" where
  "stripTrailing00 s = rev (dropLeading00 (rev s))"

definition endsWith00 :: "string \<Rightarrow> bool" where
  "endsWith00 s = (2 \<le> length s \<and> drop (length s - 2) s = ''00'')"

definition zeroGroups :: "nat \<Rightarrow> string" where
  "zeroGroups k = concat (replicate k ''00'')"

section \<open>Messages, registry events and the stores\<close>

text \<open>
  The flatbuffers models and enums imported by the engine are declared outside the file
  under verification.  They are represented by what the engine observes of them.
  \<^verbatim>\<open>MessageType\<close> has the members named by the imported message models;
  \<^verbatim>\<open>message.data.type()\<close> may be falsy, which is \<open>None\<close>.  \<^verbatim>\<open>UserPostfix\<close>,
  \<^verbatim>\<open>UserDataType\<close> and the two event-type enums keep the members the engine names and
  gather every other member in one constructor.
\<close>

datatype MessageType =
    CastAdd | CastRemove | FollowAdd | FollowRemove | ReactionAdd | ReactionRemove
  | SignerAdd | SignerRemove | UserDataAdd | VerificationAddEthAddress | VerificationRemove

datatype UserPostfix =
    CastMessage | FollowMessage | ReactionMessage | SignerMessage | VerificationMessage
  | UserDataMessage | OtherPostfix nat

datatype UserDataType = Fname | OtherUserDataType nat

datatype MessageBody = UserDataBody UserDataType "string option" | OtherBody

record MessageModel =
  messageFid :: bytes
  messageSigner :: bytes
  messageHash :: bytes
  dataType :: "MessageType option"
  setPostfix :: UserPostfix
  body :: MessageBody

datatype IdRegistryEventType =
  IdRegistryRegister | IdRegistryTransfer | OtherIdRegistryEventType nat

datatype NameRegistryEventType =
  NameRegistryTransfer | NameRegistryRenew | OtherNameRegistryEventType nat

record IdRegistryEventModel =
  idEventType :: IdRegistryEventType
  idEventFid :: bytes
  idEventTo :: bytes

record NameRegistryEventModel =
  nameEventType :: NameRegistryEventType
  nameEventFname :: bytes
  nameEventTo :: bytes

type_synonym ReactionType = nat

datatype CastId = CastId "bytes option" "bytes option"

datatype ValidatedCastId = ValidatedCastId (fidArray: bytes) (tsHashArray: bytes)

datatype UserId = UserId "bytes option"

datatype ValidatedUserId = ValidatedUserId (userFidArray: bytes)

text \<open>The six stores the engine constructs over one database.\<close>

datatype Store =
  CastStore | FollowStore | ReactionStore | SignerStore | VerificationStore | UserDataStore

text \<open>
  The read methods of the stores that the engine calls, with their arguments: those that
  resolve to one message and those that resolve to a list of messages.
\<close>

datatype OneQuery =
    GetCastAdd bytes bytes
  | GetFollowAdd bytes bytes
  | GetReactionAdd bytes ReactionType CastId
  | GetVerificationAdd bytes bytes
  | GetSignerAdd bytes bytes
  | GetUserDataAdd bytes UserDataType

datatype ManyQuery =
    GetCastAddsByUser bytes
  | GetCastRemovesByUser bytes
  | GetCastsByParent bytes bytes
  | GetCastsByMention bytes
  | GetFollowAddsByUser bytes
  | GetFollowRemovesByUser bytes
  | GetFollowsByTargetUser bytes
  | GetReactionAddsByUser bytes "ReactionType option"
  | GetReactionRemovesByUser bytes
  | GetReactionsByTargetCast ValidatedCastId "ReactionType option"
  | GetVerificationAddsByUser bytes
  | GetVerificationRemovesByUser bytes
  | GetSignerAddsByUser bytes
  | GetSignerRemovesByUser bytes
  | GetUserDataAddsByUser bytes

text \<open>
  A log record written by \<^verbatim>\<open>logger.info\<close>.  The \<^verbatim>\<open>type\<close> field of the merge record
  is \<^verbatim>\<open>MessageType[messageType]\<close>, or \<^verbatim>\<open>'Unknown'\<close> for a falsy type (\<open>None\<close>); the
  \<^verbatim>\<open>event\<close> field of an event record is the name of the event type.
\<close>

datatype LogEntry =
    MergeMessageLog bytes bytes "MessageType option" string
  | MergeIdRegistryEventLog IdRegistryEventType string
  | MergeNameRegistryEventLog NameRegistryEventType string

text \<open>
  Every call the engine makes to a collaborator is recorded, in order, so that a theorem
  can say which calls an operation made and which it did not.
\<close>

datatype Call =
    StoreMerge Store MessageModel
  | StoreRevokeMessagesBySigner Store bytes bytes
  | SignerStoreMergeIdRegistryEvent IdRegistryEventModel
  | UserDataStoreMergeNameRegistryEvent NameRegistryEventModel
  | SignerStoreGetCustodyAddress bytes
  | SignerStoreGetCustodyEvent bytes
  | SignerStoreGetFids
  | StoreGetOne OneQuery
  | StoreGetMany ManyQuery
  | IdRegistryEventModelGet bytes
  | NameRegistryEventModelGet bytes
  | ValidationsValidateMessage MessageModel
  | LoggerInfo LogEntry

text \<open>
  A promise settles by resolving with a value or by rejecting; the engine casts every
  rejection reason to \<^verbatim>\<open>HubError\<close>.
\<close>

datatype 'a promise = Resolves 'a | Rejects HubError

text \<open>
  The collaborators of the engine, none of which is defined in the file under
  verification: the stores over the database state \<open>'s\<close>, the two registry event
  models, \<^verbatim>\<open>bytesCompare\<close> and the validations.  Each is a parameter.  The six stores
  have the methods \<^verbatim>\<open>merge\<close> and \<^verbatim>\<open>revokeMessagesBySigner\<close> in common, which take the
  store as their first argument here.  A mutating store
  method returns the new database state; a read is a function of the state.  The value
  with which the revocation of a store resolves is not used by the engine; it is a
  result here, so that a store may report a failure by value as well as by rejecting.
\<close>

record 's Collaborators =
  storeMerge :: "Store \<Rightarrow> MessageModel \<Rightarrow> 's \<Rightarrow> unit promise \<times> 's"
  storeRevokeMessagesBySigner :: "Store \<Rightarrow> bytes \<Rightarrow> bytes \<Rightarrow> 's \<Rightarrow> unit HubResult promise \<times> 's"
  signerStoreMergeIdRegistryEvent :: "IdRegistryEventModel \<Rightarrow> 's \<Rightarrow> unit promise \<times> 's"
  userDataStoreMergeNameRegistryEvent :: "NameRegistryEventModel \<Rightarrow> 's \<Rightarrow> unit promise \<times> 's"
  signerStoreGetCustodyAddress :: "'s \<Rightarrow> bytes \<Rightarrow> bytes promise"
  signerStoreGetCustodyEvent :: "'s \<Rightarrow> bytes \<Rightarrow> IdRegistryEventModel promise"
  signerStoreGetFids :: "'s \<Rightarrow> bytes list promise"
  storeGetOne :: "'s \<Rightarrow> OneQuery \<Rightarrow> MessageModel promise"
  storeGetMany :: "'s \<Rightarrow> ManyQuery \<Rightarrow> MessageModel list promise"
  idRegistryEventModelGet :: "'s \<Rightarrow> bytes \<Rightarrow> IdRegistryEventModel option promise"
  nameRegistryEventModelGet :: "'s \<Rightarrow> bytes \<Rightarrow> NameRegistryEventModel option promise"
  bytesCompare :: "bytes option \<Rightarrow> bytes option \<Rightarrow> int"
  validationsValidateMessage :: "MessageModel \<Rightarrow> MessageModel HubResult promise"
  validateFid :: "bytes \<Rightarrow> bytes HubResult"
  validateTsHash :: "bytes \<Rightarrow> bytes HubResult"
  validateCastId :: "CastId \<Rightarrow> ValidatedCastId HubResult"
  validateUserId :: "UserId \<Rightarrow> ValidatedUserId HubResult"
  validateReactionType :: "ReactionType \<Rightarrow> ReactionType HubResult"
  validateEd25519PublicKey :: "bytes \<Rightarrow> bytes HubResult"
  validateEthAddress :: "bytes \<Rightarrow> bytes HubResult"

section \<open>Asynchronous functions\<close>

text \<open>
  An \<^verbatim>\<open>async\<close> function runs from a database state and yields how its promise settles,
  the calls it made and the state it leaves.  \<open>await\<close> continues with the resolved value
  and lets a rejection escape the function, as an \<^verbatim>\<open>await\<close> outside any
  \<^verbatim>\<open>try\<close> does.  \<open>fromPromise\<close> is \<^verbatim>\<open>ResultAsync.fromPromise\<close>: the promise it returns
  always resolves, with \<^verbatim>\<open>err(errorFn(e))\<close> for a rejection.
\<close>

type_synonym ('s, 'a) async = "'s \<Rightarrow> 'a promise \<times> Call list \<times> 's"

definition resolve :: "'a \<Rightarrow> ('s, 'a) async" where
  "resolve v s = (Resolves v, [], s)"

definition await :: "('s, 'a) async \<Rightarrow> ('a \<Rightarrow> ('s, 'b) async) \<Rightarrow> ('s, 'b) async" where
  "await p k s =
     (case p s of
        (Rejects e, t, s') \<Rightarrow> (Rejects e, t, s')
      | (Resolves v, t, s') \<Rightarrow> (case k v s' of (r, t', s'') \<Rightarrow> (r, t @ t', s'')))"

definition fromPromise :: "('s, 'a) async \<Rightarrow> (HubError \<Rightarrow> 'e) \<Rightarrow> ('s, 'e + 'a) async" where
  "fromPromise p errorFn s =
     (case p s of
        (Rejects e, t, s') \<Rightarrow> (Resolves (Inl (errorFn e)), t, s')
      | (Resolves v, t, s') \<Rightarrow> (Resolves (Inr v), t, s'))"

definition callRead :: "Call \<Rightarrow> ('s \<Rightarrow> 'a promise) \<Rightarrow> ('s, 'a) async" where
  "callRead c f s = (f s, [c], s)"

definition callWrite :: "Call \<Rightarrow> ('s \<Rightarrow> 'a promise \<times> 's) \<Rightarrow> ('s, 'a) async" where
  "callWrite c f s = (case f s of (r, s') \<Rightarrow> (r, [c], s'))"

definition loggerInfo :: "LogEntry \<Rightarrow> ('s, unit) async" where
  "loggerInfo entry s = (Resolves (), [LoggerInfo entry], s)"

text \<open>The projections of what an asynchronous function yields.\<close>

definition outcome :: "'a promise \<times> Call list \<times> 's \<Rightarrow> 'a promise" where
  "outcome r = fst r"

definition calls :: "'a promise \<times> Call list \<times> 's \<Rightarrow> Call list" where
  "calls r = fst (snd r)"

definition finalState :: "'a promise \<times> Call list \<times> 's \<Rightarrow> 's" where
  "finalState r = snd (snd r)"

section \<open>The engine\<close>

subsection \<open>Type guards and helpers\<close>

text \<open>
  The type guards of \<^verbatim>\<open>typeguards.ts\<close> are not in the file under verification; a
  message is a Signer Add, a Signer Remove or a UserData Add by its type tag.
  \<^verbatim>\<open>TextEncoder.encode\<close> yields the bytes of the string.
\<close>

definition isSignerAdd :: "MessageModel \<Rightarrow> bool" where
  "isSignerAdd message = (dataType message = Some SignerAdd)"

definition isSignerRemove :: "MessageModel \<Rightarrow> bool" where
  "isSignerRemove message = (dataType message = Some SignerRemove)"

definition isUserDataAdd :: "MessageModel \<Rightarrow> bool" where
  "isUserDataAdd message = (dataType message = Some UserDataAdd)"

fun bodyType :: "MessageBody \<Rightarrow> UserDataType option" where
  "bodyType (UserDataBody t v) = Some t"
| "bodyType OtherBody = None"

fun bodyValue :: "MessageBody \<Rightarrow> string option" where
  "bodyValue (UserDataBody t v) = v"
| "bodyValue OtherBody = None"

definition textEncode :: "string \<Rightarrow> bytes" where
  "textEncode str = map of_char str"

subsection \<open>validateMessage\<close>

text \<open>
  The private method \<^verbatim>\<open>validateMessage\<close>, one definition for each numbered step of the
  source; a step either returns its error or goes on to the next step.  Steps 1 and 2
  wrap the store call in \<^verbatim>\<open>ResultAsync.fromPromise\<close>; the two registry lookups of step 3
  and the call of step 4 are awaited as they are.
\<close>

definition validateMessageStep4 :: "'s Collaborators \<Rightarrow> MessageModel \<Rightarrow> ('s, MessageModel HubResult) async" where
  "validateMessageStep4 st message =
     callRead (ValidationsValidateMessage message) (\<lambda>s. validationsValidateMessage st message)"

definition validateMessageStep3 :: "'s Collaborators \<Rightarrow> MessageModel \<Rightarrow> ('s, MessageModel HubResult) async" where
  "validateMessageStep3 st message =
     (if isUserDataAdd message \<and> bodyType (body message) = Some Fname then
        (let fname = textEncode (case bodyValue (body message) of None \<Rightarrow> [] | Some v \<Rightarrow> v) in
         if 0 < length fname then
           await (callRead (IdRegistryEventModelGet (messageFid message))
                    (\<lambda>s. idRegistryEventModelGet st s (messageFid message)))
             (\<lambda>fidEvent.
           await (callRead (NameRegistryEventModelGet fname)
                    (\<lambda>s. nameRegistryEventModelGet st s fname))
             (\<lambda>fnameEvent.
           if bytesCompare st (map_option idEventTo fidEvent) (map_option nameEventTo fnameEvent) \<noteq> 0
           then resolve (Inl (HubError ''bad_request.validation_failure''
                               ''fname custody address does not match fid custody address''))
           else validateMessageStep4 st message))
         else validateMessageStep4 st message)
      else validateMessageStep4 st message)"

definition validateMessageStep2 :: "'s Collaborators \<Rightarrow> MessageModel \<Rightarrow> ('s, MessageModel HubResult) async" where
  "validateMessageStep2 st message =
     (if \<not> isSignerAdd message \<and> \<not> isSignerRemove message then
        await (fromPromise
                 (callRead (StoreGetOne (GetSignerAdd (messageFid message) (messageSigner message)))
                    (\<lambda>s. storeGetOne st s (GetSignerAdd (messageFid message) (messageSigner message))))
                 (\<lambda>e. ()))
          (\<lambda>signerResult.
             case signerResult of
               Inl u \<Rightarrow> resolve (Inl (HubError ''bad_request.validation_failure'' ''invalid signer''))
             | Inr signerAdd \<Rightarrow> validateMessageStep3 st message)
      else validateMessageStep3 st message)"

definition validateMessage :: "'s Collaborators \<Rightarrow> MessageModel \<Rightarrow> ('s, MessageModel HubResult) async" where
  "validateMessage st message =
     await (fromPromise
              (callRead (SignerStoreGetCustodyAddress (messageFid message))
                 (\<lambda>s. signerStoreGetCustodyAddress st s (messageFid message)))
              (\<lambda>e. ()))
       (\<lambda>custodyAddress.
          case custodyAddress of
            Inl u \<Rightarrow> resolve (Inl (HubError ''bad_request.validation_failure'' ''unknown user''))
          | Inr address \<Rightarrow> validateMessageStep2 st message)"

subsection \<open>mergeMessage and mergeMessages\<close>

text \<open>
  \<^verbatim>\<open>result.then(...)\<close> of \<^verbatim>\<open>mergeMessage\<close>: the outcome of the store is logged when it
  is a success and returned as it is.
\<close>

definition thenLogMerge ::
  "MessageModel \<Rightarrow> string \<Rightarrow> ('s, unit HubResult) async \<Rightarrow> ('s, unit HubResult) async" where
  "thenLogMerge message source result =
     await result
       (\<lambda>res. case res of
            Inr u \<Rightarrow>
              await (loggerInfo (MergeMessageLog (messageHash message) (messageFid message)
                                   (dataType message) source))
                (\<lambda>u. resolve res)
          | Inl e \<Rightarrow> resolve res)"

definition storeMergeCall :: "'s Collaborators \<Rightarrow> Store \<Rightarrow> MessageModel \<Rightarrow> ('s, unit HubResult) async" where
  "storeMergeCall st store message =
     fromPromise (callWrite (StoreMerge store message) (storeMerge st store message)) (\<lambda>e. e)"

definition mergeMessage :: "'s Collaborators \<Rightarrow> MessageModel \<Rightarrow> string \<Rightarrow> ('s, unit HubResult) async" where
  "mergeMessage st message source =
     await (validateMessage st message)
       (\<lambda>validatedMessage.
          case validatedMessage of
            Inl error \<Rightarrow> resolve (Inl error)
          | Inr validated \<Rightarrow>
              if setPostfix message = CastMessage then
                thenLogMerge message source (storeMergeCall st CastStore message)
              else if setPostfix message = FollowMessage then
                thenLogMerge message source (storeMergeCall st FollowStore message)
              else if setPostfix message = ReactionMessage then
                thenLogMerge message source (storeMergeCall st ReactionStore message)
              else if setPostfix message = SignerMessage then
                thenLogMerge message source (storeMergeCall st SignerStore message)
              else if setPostfix message = VerificationMessage then
                thenLogMerge message source (storeMergeCall st VerificationStore message)
              else if setPostfix message = UserDataMessage then
                thenLogMerge message source (storeMergeCall st UserDataStore message)
              else resolve (Inl (HubError ''bad_request.validation_failure'' ''invalid message type'')))"

text \<open>
  The loop of \<^verbatim>\<open>mergeMessages\<close>, with the array \<^verbatim>\<open>results\<close> as an accumulator:
  \<^verbatim>\<open>for (const message of messages) { results.push(await this.mergeMessage(message, source)); }\<close>
\<close>

fun mergeMessagesLoop ::
  "'s Collaborators \<Rightarrow> MessageModel list \<Rightarrow> string \<Rightarrow> unit HubResult list \<Rightarrow> ('s, unit HubResult list) async" where
  "mergeMessagesLoop st [] source results = resolve results"
| "mergeMessagesLoop st (message # messages) source results =
     await (mergeMessage st message source)
       (\<lambda>r. mergeMessagesLoop st messages source (results @ [r]))"

definition mergeMessages ::
  "'s Collaborators \<Rightarrow> MessageModel list \<Rightarrow> string \<Rightarrow> ('s, unit HubResult list) async" where
  "mergeMessages st messages source = mergeMessagesLoop st messages source []"

subsection \<open>Registry events and revocation\<close>

definition mergeIdRegistryEvent ::
  "'s Collaborators \<Rightarrow> IdRegistryEventModel \<Rightarrow> string \<Rightarrow> ('s, unit HubResult) async" where
  "mergeIdRegistryEvent st event source =
     (if idEventType event = IdRegistryRegister \<or> idEventType event = IdRegistryTransfer then
        await (loggerInfo (MergeIdRegistryEventLog (idEventType event) source))
          (\<lambda>u. fromPromise
                  (callWrite (SignerStoreMergeIdRegistryEvent event)
                     (signerStoreMergeIdRegistryEvent st event))
                  (\<lambda>e. e))
      else resolve (Inl (HubError ''bad_request.validation_failure'' ''invalid event type'')))"

definition mergeNameRegistryEvent ::
  "'s Collaborators \<Rightarrow> NameRegistryEventModel \<Rightarrow> string \<Rightarrow> ('s, unit HubResult) async" where
  "mergeNameRegistryEvent st event source =
     (if nameEventType event = NameRegistryTransfer \<or> nameEventType event = NameRegistryRenew then
        await (loggerInfo (MergeNameRegistryEventLog (nameEventType event) source))
          (\<lambda>u. fromPromise
                  (callWrite (UserDataStoreMergeNameRegistryEvent event)
                     (userDataStoreMergeNameRegistryEvent st event))
                  (\<lambda>e. e))
      else resolve (Inl (HubError ''bad_request.validation_failure'' ''invalid event type'')))"

text \<open>
  \<^verbatim>\<open>revokeMessagesBySigner\<close> awaits the six store calls one after the other, none of them
  wrapped in \<^verbatim>\<open>ResultAsync.fromPromise\<close>, and returns \<^verbatim>\<open>ok(undefined)\<close>.
\<close>

definition storeRevokeCall ::
  "'s Collaborators \<Rightarrow> Store \<Rightarrow> bytes \<Rightarrow> bytes \<Rightarrow> ('s, unit HubResult) async" where
  "storeRevokeCall st store fid signer =
     callWrite (StoreRevokeMessagesBySigner store fid signer)
       (storeRevokeMessagesBySigner st store fid signer)"

definition revokeMessagesBySigner ::
  "'s Collaborators \<Rightarrow> bytes \<Rightarrow> bytes \<Rightarrow> ('s, unit HubResult) async" where
  "revokeMessagesBySigner st fid signer =
     await (storeRevokeCall st CastStore fid signer) (\<lambda>u.
     await (storeRevokeCall st FollowStore fid signer) (\<lambda>u.
     await (storeRevokeCall st ReactionStore fid signer) (\<lambda>u.
     await (storeRevokeCall st VerificationStore fid signer) (\<lambda>u.
     await (storeRevokeCall st UserDataStore fid signer) (\<lambda>u.
     await (storeRevokeCall st SignerStore fid signer) (\<lambda>u.
     resolve (Inr ())))))))"

subsection \<open>The read accessors\<close>

text \<open>
  A store read wrapped in \<^verbatim>\<open>ResultAsync.fromPromise(..., (e) => e as HubError)\<close>.
\<close>

definition storeGetOneCall :: "'s Collaborators \<Rightarrow> OneQuery \<Rightarrow> ('s, MessageModel HubResult) async" where
  "storeGetOneCall st q = fromPromise (callRead (StoreGetOne q) (\<lambda>s. storeGetOne st s q)) (\<lambda>e. e)"

definition storeGetManyCall :: "'s Collaborators \<Rightarrow> ManyQuery \<Rightarrow> ('s, MessageModel list HubResult) async" where
  "storeGetManyCall st q = fromPromise (callRead (StoreGetMany q) (\<lambda>s. storeGetMany st s q)) (\<lambda>e. e)"

text \<open>
  The body shared by the five \<^verbatim>\<open>getAll...MessagesByFid\<close> methods: the adds are read,
  then the removes, and the two lists are concatenated; the first failing read is
  returned.
\<close>

definition addsAndRemoves ::
  "'s Collaborators \<Rightarrow> ManyQuery \<Rightarrow> ManyQuery \<Rightarrow> ('s, MessageModel list HubResult) async" where
  "addsAndRemoves st addsQuery removesQuery =
     await (storeGetManyCall st addsQuery)
       (\<lambda>adds. case adds of
            Inl e \<Rightarrow> resolve (Inl e)
          | Inr addsValue \<Rightarrow>
              await (storeGetManyCall st removesQuery)
                (\<lambda>removes. case removes of
                     Inl e \<Rightarrow> resolve (Inl e)
                   | Inr removesValue \<Rightarrow> resolve (Inr (addsValue @ removesValue))))"

paragraph \<open>Cast store methods\<close>

definition getCast :: "'s Collaborators \<Rightarrow> bytes \<Rightarrow> bytes \<Rightarrow> ('s, MessageModel HubResult) async" where
  "getCast st fid tsHash =
     (case validateFid st fid of
        Inl e \<Rightarrow> resolve (Inl e)
      | Inr validatedFid \<Rightarrow>
          (case validateTsHash st tsHash of
             Inl e \<Rightarrow> resolve (Inl e)
           | Inr validatedTsHash \<Rightarrow> storeGetOneCall st (GetCastAdd fid tsHash)))"

definition getCastsByFid :: "'s Collaborators \<Rightarrow> bytes \<Rightarrow> ('s, MessageModel list HubResult) async" where
  "getCastsByFid st fid =
     (case validateFid st fid of
        Inr validatedFid \<Rightarrow> storeGetManyCall st (GetCastAddsByUser validatedFid)
      | Inl e \<Rightarrow> resolve (Inl e))"

definition getCastsByParent :: "'s Collaborators \<Rightarrow> CastId \<Rightarrow> ('s, MessageModel list HubResult) async" where
  "getCastsByParent st parent =
     (case validateCastId st parent of
        Inr validatedParent \<Rightarrow>
          storeGetManyCall st (GetCastsByParent (fidArray validatedParent) (tsHashArray validatedParent))
      | Inl e \<Rightarrow> resolve (Inl e))"

definition getCastsByMention :: "'s Collaborators \<Rightarrow> UserId \<Rightarrow> ('s, MessageModel list HubResult) async" where
  "getCastsByMention st user =
     (case validateUserId st user of
        Inr validatedUserId \<Rightarrow> storeGetManyCall st (GetCastsByMention (userFidArray validatedUserId))
      | Inl e \<Rightarrow> resolve (Inl e))"

definition getAllCastMessagesByFid :: "'s Collaborators \<Rightarrow> bytes \<Rightarrow> ('s, MessageModel list HubResult) async" where
  "getAllCastMessagesByFid st fid =
     addsAndRemoves st (GetCastAddsByUser fid) (GetCastRemovesByUser fid)"

paragraph \<open>Follow store methods\<close>

definition getFollow :: "'s Collaborators \<Rightarrow> bytes \<Rightarrow> UserId \<Rightarrow> ('s, MessageModel HubResult) async" where
  "getFollow st fid user =
     (case validateFid st fid of
        Inl e \<Rightarrow> resolve (Inl e)
      | Inr validatedFid \<Rightarrow>
          (case validateUserId st user of
             Inl e \<Rightarrow> resolve (Inl e)
           | Inr validatedUser \<Rightarrow> storeGetOneCall st (GetFollowAdd fid (userFidArray validatedUser))))"

definition getFollowsByFid :: "'s Collaborators \<Rightarrow> bytes \<Rightarrow> ('s, MessageModel list HubResult) async" where
  "getFollowsByFid st fid =
     (case validateFid st fid of
        Inr validatedFid \<Rightarrow> storeGetManyCall st (GetFollowAddsByUser validatedFid)
      | Inl e \<Rightarrow> resolve (Inl e))"

definition getFollowsByUser :: "'s Collaborators \<Rightarrow> UserId \<Rightarrow> ('s, MessageModel list HubResult) async" where
  "getFollowsByUser st user =
     (case validateUserId st user of
        Inr validatedUserId \<Rightarrow> storeGetManyCall st (GetFollowsByTargetUser (userFidArray validatedUserId))
      | Inl e \<Rightarrow> resolve (Inl e))"

definition getAllFollowMessagesByFid :: "'s Collaborators \<Rightarrow> bytes \<Rightarrow> ('s, MessageModel list HubResult) async" where
  "getAllFollowMessagesByFid st fid =
     addsAndRemoves st (GetFollowAddsByUser fid) (GetFollowRemovesByUser fid)"

paragraph \<open>Reaction store methods\<close>

definition getReaction ::
  "'s Collaborators \<Rightarrow> bytes \<Rightarrow> ReactionType \<Rightarrow> CastId \<Rightarrow> ('s, MessageModel HubResult) async" where
  "getReaction st fid reactionType cast =
     (case validateFid st fid of
        Inl e \<Rightarrow> resolve (Inl e)
      | Inr validatedFid \<Rightarrow>
          (case validateReactionType st reactionType of
             Inl e \<Rightarrow> resolve (Inl e)
           | Inr validatedReactionType \<Rightarrow>
               (case validateCastId st cast of
                  Inl e \<Rightarrow> resolve (Inl e)
                | Inr validatedCast \<Rightarrow> storeGetOneCall st (GetReactionAdd fid reactionType cast))))"

definition getReactionsByFid ::
  "'s Collaborators \<Rightarrow> bytes \<Rightarrow> ReactionType option \<Rightarrow> ('s, MessageModel list HubResult) async" where
  "getReactionsByFid st fid reactionType =
     (case validateFid st fid of
        Inr validatedFid \<Rightarrow> storeGetManyCall st (GetReactionAddsByUser validatedFid reactionType)
      | Inl e \<Rightarrow> resolve (Inl e))"

definition getReactionsByCast ::
  "'s Collaborators \<Rightarrow> CastId \<Rightarrow> ReactionType option \<Rightarrow> ('s, MessageModel list HubResult) async" where
  "getReactionsByCast st cast reactionType =
     (case validateCastId st cast of
        Inr validatedCastId \<Rightarrow> storeGetManyCall st (GetReactionsByTargetCast validatedCastId reactionType)
      | Inl e \<Rightarrow> resolve (Inl e))"

definition getAllReactionMessagesByFid :: "'s Collaborators \<Rightarrow> bytes \<Rightarrow> ('s, MessageModel list HubResult) async" where
  "getAllReactionMessagesByFid st fid =
     addsAndRemoves st (GetReactionAddsByUser fid None) (GetReactionRemovesByUser fid)"

paragraph \<open>Verification store methods\<close>

definition getVerification :: "'s Collaborators \<Rightarrow> bytes \<Rightarrow> bytes \<Rightarrow> ('s, MessageModel HubResult) async" where
  "getVerification st fid address =
     (case validateFid st fid of
        Inl e \<Rightarrow> resolve (Inl e)
      | Inr validatedFid \<Rightarrow>
          (case validateEthAddress st address of
             Inl e \<Rightarrow> resolve (Inl e)
           | Inr validatedAddress \<Rightarrow> storeGetOneCall st (GetVerificationAdd fid address)))"

definition getVerificationsByFid :: "'s Collaborators \<Rightarrow> bytes \<Rightarrow> ('s, MessageModel list HubResult) async" where
  "getVerificationsByFid st fid =
     (case validateFid st fid of
        Inl e \<Rightarrow> resolve (Inl e)
      | Inr validatedFid \<Rightarrow> storeGetManyCall st (GetVerificationAddsByUser fid))"

definition getAllVerificationMessagesByFid ::
  "'s Collaborators \<Rightarrow> bytes \<Rightarrow> ('s, MessageModel list HubResult) async" where
  "getAllVerificationMessagesByFid st fid =
     addsAndRemoves st (GetVerificationAddsByUser fid) (GetVerificationRemovesByUser fid)"

paragraph \<open>Signer store methods\<close>

definition getSigner :: "'s Collaborators \<Rightarrow> bytes \<Rightarrow> bytes \<Rightarrow> ('s, MessageModel HubResult) async" where
  "getSigner st fid signerPubKey =
     (case validateFid st fid of
        Inl e \<Rightarrow> resolve (Inl e)
      | Inr validatedFid \<Rightarrow>
          (case validateEd25519PublicKey st signerPubKey of
             Inl e \<Rightarrow> resolve (Inl e)
           | Inr validatedPubKey \<Rightarrow> storeGetOneCall st (GetSignerAdd fid signerPubKey)))"

definition getSignersByFid :: "'s Collaborators \<Rightarrow> bytes \<Rightarrow> ('s, MessageModel list HubResult) async" where
  "getSignersByFid st fid =
     (case validateFid st fid of
        Inl e \<Rightarrow> resolve (Inl e)
      | Inr validatedFid \<Rightarrow> storeGetManyCall st (GetSignerAddsByUser fid))"

definition getCustodyEvent :: "'s Collaborators \<Rightarrow> bytes \<Rightarrow> ('s, IdRegistryEventModel HubResult) async" where
  "getCustodyEvent st fid =
     (case validateFid st fid of
        Inl e \<Rightarrow> resolve (Inl e)
      | Inr validatedFid \<Rightarrow>
          fromPromise (callRead (SignerStoreGetCustodyEvent fid) (\<lambda>s. signerStoreGetCustodyEvent st s fid))
            (\<lambda>e. e))"

definition getFids :: "'s Collaborators \<Rightarrow> ('s, bytes list HubResult) async" where
  "getFids st = fromPromise (callRead SignerStoreGetFids (\<lambda>s. signerStoreGetFids st s)) (\<lambda>e. e)"

definition getAllSignerMessagesByFid :: "'s Collaborators \<Rightarrow> bytes \<Rightarrow> ('s, MessageModel list HubResult) async" where
  "getAllSignerMessagesByFid st fid =
     addsAndRemoves st (GetSignerAddsByUser fid) (GetSignerRemovesByUser fid)"

paragraph \<open>User data store methods\<close>

definition getUserData :: "'s Collaborators \<Rightarrow> bytes \<Rightarrow> UserDataType \<Rightarrow> ('s, MessageModel HubResult) async" where
  "getUserData st fid userDataType =
     (case validateFid st fid of
        Inl e \<Rightarrow> resolve (Inl e)
      | Inr validatedFid \<Rightarrow> storeGetOneCall st (GetUserDataAdd fid userDataType))"

definition getUserDataByFid :: "'s Collaborators \<Rightarrow> bytes \<Rightarrow> ('s, MessageModel list HubResult) async" where
  "getUserDataByFid st fid =
     (case validateFid st fid of
        Inl e \<Rightarrow> resolve (Inl e)
      | Inr validatedFid \<Rightarrow> storeGetManyCall st (GetUserDataAddsByUser fid))"

section \<open>Vocabulary of the properties\<close>

text \<open>
  The store that merges the messages of a category: the six categories of the
  specification (Cast, Follow, Reaction, Signer, Verification, UserData) each have their
  store; any other postfix has none.
\<close>

fun categoryStore :: "UserPostfix \<Rightarrow> Store option" where
  "categoryStore CastMessage = Some CastStore"
| "categoryStore FollowMessage = Some FollowStore"
| "categoryStore ReactionMessage = Some ReactionStore"
| "categoryStore SignerMessage = Some SignerStore"
| "categoryStore VerificationMessage = Some VerificationStore"
| "categoryStore UserDataMessage = Some UserDataStore"
| "categoryStore (OtherPostfix n) = None"

text \<open>
  The calls that can change the database (the merges and the revocation), and the merges
  of messages among them.  Every other call reads, validates or logs.
\<close>

fun isMutation :: "Call \<Rightarrow> bool" where
  "isMutation (StoreMerge store message) = True"
| "isMutation (StoreRevokeMessagesBySigner store fid signer) = True"
| "isMutation (SignerStoreMergeIdRegistryEvent event) = True"
| "isMutation (UserDataStoreMergeNameRegistryEvent event) = True"
| "isMutation c = False"

fun isStoreMerge :: "Call \<Rightarrow> bool" where
  "isStoreMerge (StoreMerge store message) = True"
| "isStoreMerge c = False"

fun isSignerLookup :: "Call \<Rightarrow> bool" where
  "isSignerLookup (StoreGetOne (GetSignerAdd fid key)) = True"
| "isSignerLookup c = False"

fun isRegistryLookup :: "Call \<Rightarrow> bool" where
  "isRegistryLookup (IdRegistryEventModelGet fid) = True"
| "isRegistryLookup (NameRegistryEventModelGet fname) = True"
| "isRegistryLookup c = False"

text \<open>
  The outcome of a store merge as \<^verbatim>\<open>mergeMessage\<close> returns it, and the log record that
  follows a successful one.
\<close>

fun mergeResult :: "unit promise \<Rightarrow> unit HubResult" where
  "mergeResult (Resolves u) = Inr ()"
| "mergeResult (Rejects e) = Inl e"

fun mergeLog :: "MessageModel \<Rightarrow> string \<Rightarrow> unit promise \<Rightarrow> Call list" where
  "mergeLog message source (Resolves u) =
     [LoggerInfo (MergeMessageLog (messageHash message) (messageFid message) (dataType message) source)]"
| "mergeLog message source (Rejects e) = []"

section \<open>An in-memory instance of the collaborators\<close>

text \<open>
  A small database and stores over it, to run the engine on concrete inputs: the custody
  and name events, the active signer keys of each account and the merged messages.  A
  lookup of what is not there rejects with a not-found error, except for the two registry
  event models, which resolve with no event.
\<close>

record HubDb =
  custodyEvents :: "IdRegistryEventModel list"
  nameEvents :: "NameRegistryEventModel list"
  signerAdds :: "(bytes \<times> bytes) list"
  merged :: "(Store \<times> MessageModel) list"

definition notFound :: HubError where
  "notFound = HubError ''not_found'' ''NotFound''"

definition memMerge :: "Store \<Rightarrow> MessageModel \<Rightarrow> HubDb \<Rightarrow> unit promise \<times> HubDb" where
  "memMerge store message db = (Resolves (), db\<lparr>merged := merged db @ [(store, message)]\<rparr>)"

definition memRevoke :: "Store \<Rightarrow> bytes \<Rightarrow> bytes \<Rightarrow> HubDb \<Rightarrow> unit HubResult promise \<times> HubDb" where
  "memRevoke store fid signer db =
     (Resolves (Inr ()),
      db\<lparr>merged := filter (\<lambda>(st, m). \<not> (st = store \<and> messageFid m = fid \<and> messageSigner m = signer))
                       (merged db)\<rparr>)"

definition memMergeIdRegistryEvent :: "IdRegistryEventModel \<Rightarrow> HubDb \<Rightarrow> unit promise \<times> HubDb" where
  "memMergeIdRegistryEvent event db =
     (Resolves (),
      db\<lparr>custodyEvents := event # filter (\<lambda>e. idEventFid e \<noteq> idEventFid event) (custodyEvents db)\<rparr>)"

definition memMergeNameRegistryEvent :: "NameRegistryEventModel \<Rightarrow> HubDb \<Rightarrow> unit promise \<times> HubDb" where
  "memMergeNameRegistryEvent event db =
     (Resolves (),
      db\<lparr>nameEvents := event # filter (\<lambda>e. nameEventFname e \<noteq> nameEventFname event) (nameEvents db)\<rparr>)"

definition memGetCustodyEvent :: "HubDb \<Rightarrow> bytes \<Rightarrow> IdRegistryEventModel promise" where
  "memGetCustodyEvent db fid =
     (case find (\<lambda>e. idEventFid e = fid) (custodyEvents db) of
        None \<Rightarrow> Rejects notFound
      | Some e \<Rightarrow> Resolves e)"

definition memGetCustodyAddress :: "HubDb \<Rightarrow> bytes \<Rightarrow> bytes promise" where
  "memGetCustodyAddress db fid =
     (case find (\<lambda>e. idEventFid e = fid) (custodyEvents db) of
        None \<Rightarrow> Rejects notFound
      | Some e \<Rightarrow> Resolves (idEventTo e))"

definition memGetFids :: "HubDb \<Rightarrow> bytes list promise" where
  "memGetFids db = Resolves (map idEventFid (custodyEvents db))"

definition signerAddMessage :: "bytes \<Rightarrow> bytes \<Rightarrow> MessageModel" where
  "signerAddMessage fid key =
     \<lparr>messageFid = fid, messageSigner = [], messageHash = key, dataType = Some SignerAdd,
      setPostfix = SignerMessage, body = OtherBody\<rparr>"

fun memGetOne :: "HubDb \<Rightarrow> OneQuery \<Rightarrow> MessageModel promise" where
  "memGetOne db (GetSignerAdd fid key) =
     (if (fid, key) \<in> set (signerAdds db) then Resolves (signerAddMessage fid key) else Rejects notFound)"
| "memGetOne db q = Rejects notFound"

definition mergedOf :: "HubDb \<Rightarrow> Store \<Rightarrow> MessageType \<Rightarrow> bytes \<Rightarrow> MessageModel list" where
  "mergedOf db store t fid =
     map snd (filter (\<lambda>(st, m). st = store \<and> dataType m = Some t \<and> messageFid m = fid) (merged db))"

fun memGetMany :: "HubDb \<Rightarrow> ManyQuery \<Rightarrow> MessageModel list promise" where
  "memGetMany db (GetCastAddsByUser fid) = Resolves (mergedOf db CastStore CastAdd fid)"
| "memGetMany db (GetCastRemovesByUser fid) = Resolves (mergedOf db CastStore CastRemove fid)"
| "memGetMany db (GetFollowAddsByUser fid) = Resolves (mergedOf db FollowStore FollowAdd fid)"
| "memGetMany db (GetFollowRemovesByUser fid) = Resolves (mergedOf db FollowStore FollowRemove fid)"
| "memGetMany db (GetReactionAddsByUser fid t) = Resolves (mergedOf db ReactionStore ReactionAdd fid)"
| "memGetMany db (GetReactionRemovesByUser fid) = Resolves (mergedOf db ReactionStore ReactionRemove fid)"
| "memGetMany db (GetVerificationAddsByUser fid) =
     Resolves (mergedOf db VerificationStore VerificationAddEthAddress fid)"
| "memGetMany db (GetVerificationRemovesByUser fid) =
     Resolves (mergedOf db VerificationStore VerificationRemove fid)"
| "memGetMany db (GetSignerAddsByUser fid) = Resolves (mergedOf db SignerStore SignerAdd fid)"
| "memGetMany db (GetSignerRemovesByUser fid) = Resolves (mergedOf db SignerStore SignerRemove fid)"
| "memGetMany db (GetUserDataAddsByUser fid) = Resolves (mergedOf db UserDataStore UserDataAdd fid)"
| "memGetMany db q = Resolves []"

definition memIdRegistryEventModelGet :: "HubDb \<Rightarrow> bytes \<Rightarrow> IdRegistryEventModel option promise" where
  "memIdRegistryEventModelGet db fid = Resolves (find (\<lambda>e. idEventFid e = fid) (custodyEvents db))"

definition memNameRegistryEventModelGet :: "HubDb \<Rightarrow> bytes \<Rightarrow> NameRegistryEventModel option promise" where
  "memNameRegistryEventModelGet db fname = Resolves (find (\<lambda>e. nameEventFname e = fname) (nameEvents db))"

fun compareByteLists :: "bytes \<Rightarrow> bytes \<Rightarrow> int" where
  "compareByteLists [] [] = 0"
| "compareByteLists [] (y # ys) = - 1"
| "compareByteLists (x # xs) [] = 1"
| "compareByteLists (x # xs) (y # ys) =
     (if x < y then - 1 else if y < x then 1 else compareByteLists xs ys)"

fun memBytesCompare :: "bytes option \<Rightarrow> bytes option \<Rightarrow> int" where
  "memBytesCompare None None = 0"
| "memBytesCompare None (Some b) = - 1"
| "memBytesCompare (Some a) None = 1"
| "memBytesCompare (Some a) (Some b) = compareByteLists a b"

definition memValidateMessage :: "MessageModel \<Rightarrow> MessageModel HubResult promise" where
  "memValidateMessage message =
     Resolves (if messageHash message = []
               then Inl (HubError ''bad_request.validation_failure'' ''invalid hash'')
               else Inr message)"

definition memValidateFid :: "bytes \<Rightarrow> bytes HubResult" where
  "memValidateFid fid =
     (if fid = [] then Inl (HubError ''bad_request.validation_failure'' ''fid is missing'')
      else if 32 < length fid then Inl (HubError ''bad_request.validation_failure'' ''fid > 32 bytes'')
      else Inr fid)"

definition memValidateTsHash :: "bytes \<Rightarrow> bytes HubResult" where
  "memValidateTsHash tsHash =
     (if length tsHash = 20 then Inr tsHash
      else Inl (HubError ''bad_request.validation_failure'' ''tsHash must be 20 bytes''))"

fun memValidateCastId :: "CastId \<Rightarrow> ValidatedCastId HubResult" where
  "memValidateCastId (CastId (Some fid) (Some tsHash)) =
     (case memValidateFid fid of
        Inl e \<Rightarrow> Inl e
      | Inr f \<Rightarrow> (case memValidateTsHash tsHash of
                    Inl e \<Rightarrow> Inl e
                  | Inr h \<Rightarrow> Inr (ValidatedCastId fid tsHash)))"
| "memValidateCastId (CastId f t) = Inl (HubError ''bad_request.validation_failure'' ''castId is missing'')"

fun memValidateUserId :: "UserId \<Rightarrow> ValidatedUserId HubResult" where
  "memValidateUserId (UserId (Some fid)) =
     (case memValidateFid fid of Inl e \<Rightarrow> Inl e | Inr f \<Rightarrow> Inr (ValidatedUserId fid))"
| "memValidateUserId (UserId None) = Inl (HubError ''bad_request.validation_failure'' ''userId is missing'')"

definition memValidateReactionType :: "ReactionType \<Rightarrow> ReactionType HubResult" where
  "memValidateReactionType t =
     (if t = 1 \<or> t = 2 then Inr t
      else Inl (HubError ''bad_request.validation_failure'' ''invalid reaction type''))"

definition memValidateEd25519PublicKey :: "bytes \<Rightarrow> bytes HubResult" where
  "memValidateEd25519PublicKey key =
     (if length key = 32 then Inr key
      else Inl (HubError ''bad_request.validation_failure'' ''publicKey must be 32 bytes''))"

definition memValidateEthAddress :: "bytes \<Rightarrow> bytes HubResult" where
  "memValidateEthAddress address =
     (if length address = 20 then Inr address
      else Inl (HubError ''bad_request.validation_failure'' ''address must be 20 bytes''))"

definition memoryCollaborators :: "HubDb Collaborators" where
  "memoryCollaborators =
     \<lparr>storeMerge = memMerge,
      storeRevokeMessagesBySigner = memRevoke,
      signerStoreMergeIdRegistryEvent = memMergeIdRegistryEvent,
      userDataStoreMergeNameRegistryEvent = memMergeNameRegistryEvent,
      signerStoreGetCustodyAddress = memGetCustodyAddress,
      signerStoreGetCustodyEvent = memGetCustodyEvent,
      signerStoreGetFids = memGetFids,
      storeGetOne = memGetOne,
      storeGetMany = memGetMany,
      idRegistryEventModelGet = memIdRegistryEventModelGet,
      nameRegistryEventModelGet = memNameRegistryEventModelGet,
      bytesCompare = memBytesCompare,
      validationsValidateMessage = memValidateMessage,
      validateFid = memValidateFid,
      validateTsHash = memValidateTsHash,
      validateCastId = memValidateCastId,
      validateUserId = memValidateUserId,
      validateReactionType = memValidateReactionType,
      validateEd25519PublicKey = memValidateEd25519PublicKey,
      validateEthAddress = memValidateEthAddress\<rparr>"

text \<open>
  A database with one account, its custody address and one active signer key, and two
  registered names: \<^verbatim>\<open>alice\<close> bound to the custody address of the account, \<^verbatim>\<open>bob\<close> to
  another address.
\<close>

definition sampleDb :: HubDb where
  "sampleDb =
     \<lparr>custodyEvents = [\<lparr>idEventType = IdRegistryRegister, idEventFid = [1], idEventTo = [170]\<rparr>],
      nameEvents = [\<lparr>nameEventType = NameRegistryTransfer, nameEventFname = textEncode ''alice'',
                      nameEventTo = [170]\<rparr>,
                    \<lparr>nameEventType = NameRegistryTransfer, nameEventFname = textEncode ''bob'',
                      nameEventTo = [187]\<rparr>],
      signerAdds = [([1], [7])],
      merged = []\<rparr>"

text \<open>
  Messages of the account: a cast signed by the active key, a user-data message that sets
  the name, and a Signer Add signed by the custody key.
\<close>

definition castMessage :: MessageModel where
  "castMessage =
     \<lparr>messageFid = [1], messageSigner = [7], messageHash = [9], dataType = Some CastAdd,
      setPostfix = CastMessage, body = OtherBody\<rparr>"

definition fnameMessage :: "string option \<Rightarrow> MessageModel" where
  "fnameMessage name =
     \<lparr>messageFid = [1], messageSigner = [7], messageHash = [10], dataType = Some UserDataAdd,
      setPostfix = UserDataMessage, body = UserDataBody Fname name\<rparr>"

definition signerMessage :: MessageModel where
  "signerMessage =
     \<lparr>messageFid = [1], messageSigner = [170], messageHash = [11], dataType = Some SignerAdd,
      setPostfix = SignerMessage, body = OtherBody\<rparr>"

text \<open>
  What the fname check needs of \<^verbatim>\<open>bytesCompare\<close>, whose definition is not in the file
  under verification: for two addresses that are present the result is zero exactly when
  their contents are equal, and it is not zero when exactly one of them is absent.
\<close>

definition comparesContents :: "(bytes option \<Rightarrow> bytes option \<Rightarrow> int) \<Rightarrow> bool" where
  "comparesContents cmp =
     ((\<forall>a b. (cmp (Some a) (Some b) = 0) = (a = b))
      \<and> (\<forall>b. cmp None (Some b) \<noteq> 0)
      \<and> (\<forall>a. cmp (Some a) None \<noteq> 0))"

text \<open>
  Collaborators that fail.  In the first the revocation of the reaction store rejects
  with a storage failure; in the second it resolves with that failure as an error value.
  In the third the message validator throws for a message without hash, where the
  validator of the in-memory instance returns the error as a value.
\<close>

definition storageFailure :: HubError where
  "storageFailure = HubError ''unavailable.storage_failure'' ''storage failure''"

definition rejectingReactionRevoke :: "HubDb Collaborators" where
  "rejectingReactionRevoke =
     memoryCollaborators
       \<lparr>storeRevokeMessagesBySigner :=
          (\<lambda>store fid signer db.
             if store = ReactionStore then (Rejects storageFailure, db)
             else memRevoke store fid signer db)\<rparr>"

definition failingReactionRevoke :: "HubDb Collaborators" where
  "failingReactionRevoke =
     memoryCollaborators
       \<lparr>storeRevokeMessagesBySigner :=
          (\<lambda>store fid signer db.
             if store = ReactionStore then (Resolves (Inl storageFailure), db)
             else memRevoke store fid signer db)\<rparr>"

definition throwingValidator :: "HubDb Collaborators" where
  "throwingValidator =
     memoryCollaborators
       \<lparr>validationsValidateMessage :=
          (\<lambda>message.
             if messageHash message = []
             then Rejects (HubError ''bad_request.validation_failure'' ''invalid hash'')
             else Resolves (Inr message))\<rparr>"

text \<open>
  A verification of the sample account signed by its active key, and a database in which
  a cast and that verification are merged.
\<close>

definition verificationMessage :: MessageModel where
  "verificationMessage =
     \<lparr>messageFid = [1], messageSigner = [7], messageHash = [12],
      dataType = Some VerificationAddEthAddress, setPostfix = VerificationMessage, body = OtherBody\<rparr>"

definition mergedDb :: HubDb where
  "mergedDb = sampleDb\<lparr>merged := [(CastStore, castMessage), (VerificationStore, verificationMessage)]\<rparr>"

text \<open>
  Collaborators in which the lookup of a name that is not registered rejects with the
  not-found error, as a read of a missing key does, where the in-memory instance resolves
  with no event.
\<close>

definition rejectingNameLookup :: "HubDb Collaborators" where
  "rejectingNameLookup =
     memoryCollaborators
       \<lparr>nameRegistryEventModelGet :=
          (\<lambda>db fname.
             case find (\<lambda>e. nameEventFname e = fname) (nameEvents db) of
               None \<Rightarrow> Rejects notFound
             | Some e \<Rightarrow> Resolves (Some e))\<rparr>"

section \<open>Removal of the right padding\<close>

lemma nat_length_minus2: "nat (int n - 2) = n - 2"
  by arith

lemma substringFrom_last2: "substringFrom hex (int (length hex) - 2) = drop (length hex - 2) hex"
  by (auto simp: substringFrom_def substring_def clampIndex_def Let_def max_def min_def
      nat_length_minus2)

lemma substring_without_last2: "substring hex 0 (int (length hex) - 2) = take (length hex - 2) hex"
  by (auto simp: substring_def clampIndex_def Let_def max_def min_def nat_length_minus2)

lemma endsWith00_iff: "endsWith00 s = (\<exists>r. s = r @ ''00'')"
  unfolding endsWith00_def
proof
  assume a: "2 \<le> length s \<and> drop (length s - 2) s = ''00''"
  have "s = take (length s - 2) s @ drop (length s - 2) s" by simp
  with a show "\<exists>r. s = r @ ''00''" by metis
next
  assume "\<exists>r. s = r @ ''00''"
  then show "2 \<le> length s \<and> drop (length s - 2) s = ''00''" by auto
qed

lemma last2_is_00: "(substringFrom hex (int (length hex) - 2) = ''00'') = endsWith00 hex"
proof -
  have "2 \<le> length hex" if d: "drop (length hex - 2) hex = ''00''"
  proof -
    have "length (drop (length hex - 2) hex) \<le> length hex" by simp
    with d show ?thesis by simp
  qed
  then show ?thesis by (auto simp: substringFrom_last2 endsWith00_def)
qed

lemma iteration_shortens:
  assumes "substringFrom hex (int (length hex) - 2) = ''00''"
  shows "length (substring hex 0 (int (length hex) - 2)) + 2 = length hex"
proof -
  from assms have "2 \<le> length hex" by (simp add: last2_is_00 endsWith00_def)
  then show ?thesis by (simp add: substring_without_last2)
qed

lemma removeRightPadding_step: "removeRightPadding (r @ ''00'') = removeRightPadding r"
proof -
  have "removeRightPadding (r @ ''00'') =
      (if substringFrom (r @ ''00'') (int (length (r @ ''00'')) - 2) = ''00''
       then removeRightPadding (substring (r @ ''00'') 0 (int (length (r @ ''00'')) - 2))
       else r @ ''00'')"
    by (rule removeRightPadding.simps)
  also have "\<dots> = removeRightPadding r"
    by (simp only: substringFrom_last2 substring_without_last2) simp
  finally show ?thesis .
qed

lemma removeRightPadding_stop:
  assumes "\<not> endsWith00 s"
  shows "removeRightPadding s = s"
proof -
  from assms have c: "substringFrom s (int (length s) - 2) \<noteq> ''00''"
    by (simp add: last2_is_00)
  have "removeRightPadding s =
      (if substringFrom s (int (length s) - 2) = ''00''
       then removeRightPadding (substring s 0 (int (length s) - 2))
       else s)"
    by (rule removeRightPadding.simps)
  with c show ?thesis by simp
qed

lemma stripTrailing00_step: "stripTrailing00 (r @ ''00'') = stripTrailing00 r"
  by (simp add: stripTrailing00_def)

lemma dropLeading00_stop: "\<not> (\<exists>r. s = ''00'' @ r) \<Longrightarrow> dropLeading00 s = s"
  by (cases s rule: dropLeading00.cases) auto

lemma stripTrailing00_stop:
  assumes "\<not> endsWith00 s"
  shows "stripTrailing00 s = s"
proof -
  have "\<not> (\<exists>r. rev s = ''00'' @ r)"
  proof
    assume "\<exists>r. rev s = ''00'' @ r"
    then obtain r where "rev s = ''00'' @ r" by blast
    then have "rev (rev s) = rev (''00'' @ r)" by simp
    then have "s = rev r @ ''00''" by simp
    with assms show False by (auto simp: endsWith00_iff)
  qed
  then have "dropLeading00 (rev s) = rev s" by (rule dropLeading00_stop)
  then show ?thesis by (simp add: stripTrailing00_def)
qed

lemma removeRightPadding_eq: "removeRightPadding s = stripTrailing00 s"
proof (induction s rule: length_induct)
  case (1 s)
  show ?case
  proof (cases "endsWith00 s")
    case True
    then obtain r where r: "s = r @ ''00''" by (auto simp: endsWith00_iff)
    then have "length r < length s" by simp
    with 1 have "removeRightPadding r = stripTrailing00 r" by blast
    then show ?thesis by (simp only: r removeRightPadding_step stripTrailing00_step)
  next
    case False
    then show ?thesis by (simp add: removeRightPadding_stop stripTrailing00_stop)
  qed
qed

lemma zeroGroups_Suc: "zeroGroups (Suc k) = zeroGroups k @ ''00''"
  unfolding zeroGroups_def by (induction k) simp_all

lemma stripTrailing00_decomposes: "\<exists>k. s = stripTrailing00 s @ zeroGroups k"
proof (induction s rule: length_induct)
  case (1 s)
  show ?case
  proof (cases "endsWith00 s")
    case True
    then obtain r where r: "s = r @ ''00''" by (auto simp: endsWith00_iff)
    then have "length r < length s" by simp
    with 1 obtain k where k: "r = stripTrailing00 r @ zeroGroups k" by blast
    have "r @ ''00'' = (stripTrailing00 r @ zeroGroups k) @ ''00''" using k by simp
    also have "\<dots> = stripTrailing00 (r @ ''00'') @ zeroGroups (Suc k)"
      by (simp only: stripTrailing00_step zeroGroups_Suc append_assoc)
    finally show ?thesis unfolding r by blast
  next
    case False
    then have "s = stripTrailing00 s @ zeroGroups 0" by (simp add: stripTrailing00_stop zeroGroups_def)
    then show ?thesis by blast
  qed
qed

lemma stripTrailing00_no_padding: "\<not> endsWith00 (stripTrailing00 s)"
proof (induction s rule: length_induct)
  case (1 s)
  show ?case
  proof (cases "endsWith00 s")
    case True
    then obtain r where r: "s = r @ ''00''" by (auto simp: endsWith00_iff)
    then have "length r < length s" by simp
    with 1 have "\<not> endsWith00 (stripTrailing00 r)" by blast
    then show ?thesis by (simp add: r stripTrailing00_step)
  next
    case False
    then show ?thesis by (simp add: stripTrailing00_stop)
  qed
qed

text \<open>
  C10.  The padding loop of \<^verbatim>\<open>bytes32ToBytes\<close> terminates for every value: whenever the
  loop condition holds, the next string is exactly two characters shorter, which is the
  measure of the termination proof of \<open>removeRightPadding\<close>.  The function is total and
  returns \<^verbatim>\<open>hexStringToBytes\<close> of the hexadecimal representation with every trailing
  \<^verbatim>\<open>00\<close> group removed: the representation is the stripped string followed by some
  number of \<^verbatim>\<open>00\<close> groups, and the stripped string does not end in \<^verbatim>\<open>00\<close>.
\<close>

theorem bytes32ToBytes_removes_all_padding:
  "(substringFrom hex (int (length hex) - 2) = ''00'' \<longrightarrow>
      length (substring hex 0 (int (length hex) - 2)) + 2 = length hex)
   \<and> bytes32ToBytes hexStringToBytes v = hexStringToBytes (stripTrailing00 (toString16 v))
   \<and> (\<exists>k. toString16 v = stripTrailing00 (toString16 v) @ zeroGroups k)
   \<and> \<not> endsWith00 (stripTrailing00 (toString16 v))"
proof (intro conjI impI)
  assume "substringFrom hex (int (length hex) - 2) = ''00''"
  then show "length (substring hex 0 (int (length hex) - 2)) + 2 = length hex"
    by (rule iteration_shortens)
next
  show "bytes32ToBytes hexStringToBytes v = hexStringToBytes (stripTrailing00 (toString16 v))"
    by (simp add: bytes32ToBytes_def removeRightPadding_eq)
next
  show "\<exists>k. toString16 v = stripTrailing00 (toString16 v) @ zeroGroups k"
    by (rule stripTrailing00_decomposes)
next
  show "\<not> endsWith00 (stripTrailing00 (toString16 v))"
    by (rule stripTrailing00_no_padding)
qed

theorem bytes32ToBytes_removes_all_padding_witness:
  "substringFrom ''100'' (int (length ''100'') - 2) = ''00''
   \<and> length (substring ''100'' 0 (int (length ''100'') - 2)) + 2 = length ''100''
   \<and> toString16 256 = ''100''
   \<and> bytes32ToBytes (\<lambda>hex. Inr (textEncode hex)) 256 = Inr [49]"
proof -
  have guard: "substringFrom ''100'' (int (length ''100'') - 2) = ''00''"
    by (simp add: substringFrom_def substring_def clampIndex_def)
  have hex: "toString16 256 = ''100''"
    by code_simp
  have stripped: "stripTrailing00 ''100'' = ''1''"
    by (simp add: stripTrailing00_def)
  from bytes32ToBytes_removes_all_padding [of "''100''" "\<lambda>hex. Inr (textEncode hex)" 256] guard
  show ?thesis
    by (simp add: hex stripped textEncode_def)
qed

section \<open>Asynchronous functions: basic facts\<close>

lemma projections [simp]:
  "outcome (a, b, c) = a" "calls (a, b, c) = b" "finalState (a, b, c) = c"
  by (simp_all add: outcome_def calls_def finalState_def)

lemma triple_eq: "r = (outcome r, calls r, finalState r)"
  by (simp add: outcome_def calls_def finalState_def)

lemma await_eq:
  "await p k s =
     (case outcome (p s) of
        Rejects e \<Rightarrow> (Rejects e, calls (p s), finalState (p s))
      | Resolves v \<Rightarrow>
          (outcome (k v (finalState (p s))),
           calls (p s) @ calls (k v (finalState (p s))),
           finalState (k v (finalState (p s)))))"
  by (simp add: await_def outcome_def calls_def finalState_def split: prod.splits promise.splits)

lemma fromPromise_callRead:
  "fromPromise (callRead c f) g s =
     (Resolves (case f s of Resolves v \<Rightarrow> Inr v | Rejects e \<Rightarrow> Inl (g e)), [c], s)"
  by (simp add: fromPromise_def callRead_def split: promise.splits)

lemma fromPromise_callWrite:
  "fromPromise (callWrite c f) g s =
     (Resolves (case fst (f s) of Resolves v \<Rightarrow> Inr v | Rejects e \<Rightarrow> Inl (g e)), [c], snd (f s))"
  by (simp add: fromPromise_def callWrite_def split: promise.splits prod.splits)

lemma validateMessage_unknown:
  assumes "signerStoreGetCustodyAddress st s (messageFid message) = Rejects e"
  shows "validateMessage st message s =
    (Resolves (Inl (HubError ''bad_request.validation_failure'' ''unknown user'')),
     [SignerStoreGetCustodyAddress (messageFid message)], s)"
  using assms by (simp add: validateMessage_def await_eq fromPromise_callRead resolve_def)

lemma validateMessage_known:
  assumes "signerStoreGetCustodyAddress st s (messageFid message) = Resolves a"
  shows "validateMessage st message s =
    (outcome (validateMessageStep2 st message s),
     SignerStoreGetCustodyAddress (messageFid message) # calls (validateMessageStep2 st message s),
     finalState (validateMessageStep2 st message s))"
  using assms by (simp add: validateMessage_def await_eq fromPromise_callRead)

lemma mergeMessage_invalid:
  assumes "validateMessage st message s = (Resolves (Inl e), t, s')"
  shows "mergeMessage st message source s = (Resolves (Inl e), t, s')"
  using assms by (simp add: mergeMessage_def await_eq resolve_def)

lemma mergeMessage_rejected:
  assumes "validateMessage st message s = (Rejects e, t, s')"
  shows "mergeMessage st message source s = (Rejects e, t, s')"
  using assms by (simp add: mergeMessage_def await_eq)

lemma step2_signer_message:
  assumes "isSignerAdd message \<or> isSignerRemove message"
  shows "validateMessageStep2 st message s = validateMessageStep3 st message s"
  using assms by (auto simp add: validateMessageStep2_def)

lemma step2_invalid_signer:
  assumes "\<not> isSignerAdd message" "\<not> isSignerRemove message"
    and "storeGetOne st s (GetSignerAdd (messageFid message) (messageSigner message)) = Rejects e"
  shows "validateMessageStep2 st message s =
    (Resolves (Inl (HubError ''bad_request.validation_failure'' ''invalid signer'')),
     [StoreGetOne (GetSignerAdd (messageFid message) (messageSigner message))], s)"
  using assms by (simp add: validateMessageStep2_def await_eq fromPromise_callRead resolve_def)

lemma step2_valid_signer:
  assumes "\<not> isSignerAdd message" "\<not> isSignerRemove message"
    and "storeGetOne st s (GetSignerAdd (messageFid message) (messageSigner message)) = Resolves sa"
  shows "validateMessageStep2 st message s =
    (outcome (validateMessageStep3 st message s),
     StoreGetOne (GetSignerAdd (messageFid message) (messageSigner message))
       # calls (validateMessageStep3 st message s),
     finalState (validateMessageStep3 st message s))"
  using assms by (simp add: validateMessageStep2_def await_eq fromPromise_callRead)

lemma step4_eq:
  "validateMessageStep4 st message s =
     (validationsValidateMessage st message, [ValidationsValidateMessage message], s)"
  by (simp add: validateMessageStep4_def callRead_def)


lemma textEncode_empty: "(textEncode str = []) = (str = [])"
  by (simp add: textEncode_def)

lemma step3_skipped:
  assumes "\<not> (isUserDataAdd message \<and> bodyType (body message) = Some Fname)
           \<or> bodyValue (body message) = None \<or> bodyValue (body message) = Some []"
  shows "validateMessageStep3 st message s = validateMessageStep4 st message s"
  using assms by (auto simp add: validateMessageStep3_def Let_def textEncode_empty)

lemma step3_checked:
  assumes "isUserDataAdd message" "body message = UserDataBody Fname (Some name)" "name \<noteq> []"
    and "idRegistryEventModelGet st s (messageFid message) = Resolves fidEvent"
    and "nameRegistryEventModelGet st s (textEncode name) = Resolves fnameEvent"
  shows "validateMessageStep3 st message s =
    (if bytesCompare st (map_option idEventTo fidEvent) (map_option nameEventTo fnameEvent) \<noteq> 0
     then (Resolves (Inl (HubError ''bad_request.validation_failure''
                           ''fname custody address does not match fid custody address'')),
           [IdRegistryEventModelGet (messageFid message), NameRegistryEventModelGet (textEncode name)], s)
     else (validationsValidateMessage st message,
           [IdRegistryEventModelGet (messageFid message), NameRegistryEventModelGet (textEncode name),
            ValidationsValidateMessage message], s))"
  using assms
  by (simp add: validateMessageStep3_def Let_def textEncode_empty await_eq callRead_def resolve_def
      step4_eq)

lemma step3_frame:
  "finalState (validateMessageStep3 st message s) = s
   \<and> (\<forall>c \<in> set (calls (validateMessageStep3 st message s)).
         isRegistryLookup c \<or> c = ValidationsValidateMessage message)"
  by (auto simp add: validateMessageStep3_def Let_def await_eq callRead_def resolve_def step4_eq
      split: promise.splits)

lemma step2_frame:
  "finalState (validateMessageStep2 st message s) = s
   \<and> (\<forall>c \<in> set (calls (validateMessageStep2 st message s)).
         c = StoreGetOne (GetSignerAdd (messageFid message) (messageSigner message))
         \<or> isRegistryLookup c \<or> c = ValidationsValidateMessage message)"
  using step3_frame [of st message s]
  by (auto simp add: validateMessageStep2_def await_eq fromPromise_callRead resolve_def
      split: promise.splits)

lemma validateMessage_frame:
  "finalState (validateMessage st message s) = s
   \<and> (\<forall>c \<in> set (calls (validateMessage st message s)).
         c = SignerStoreGetCustodyAddress (messageFid message)
         \<or> c = StoreGetOne (GetSignerAdd (messageFid message) (messageSigner message))
         \<or> isRegistryLookup c \<or> c = ValidationsValidateMessage message)"
  using step2_frame [of st message s]
  by (auto simp add: validateMessage_def await_eq fromPromise_callRead resolve_def
      split: promise.splits)

lemma validateMessage_no_mutation:
  "c \<in> set (calls (validateMessage st message s)) \<Longrightarrow> \<not> isMutation c"
  using validateMessage_frame [of st message s]
  by (cases c rule: isRegistryLookup.cases) auto

lemma step3_success:
  "outcome (validateMessageStep3 st message s) = Resolves (Inr m')
   \<Longrightarrow> validationsValidateMessage st message = Resolves (Inr m')"
  by (auto simp add: validateMessageStep3_def Let_def await_eq callRead_def resolve_def step4_eq
      split: promise.splits if_splits)

lemma step2_success:
  "outcome (validateMessageStep2 st message s) = Resolves (Inr m')
   \<Longrightarrow> validationsValidateMessage st message = Resolves (Inr m')"
  using step3_success [of st message s m']
  by (auto simp add: validateMessageStep2_def await_eq fromPromise_callRead resolve_def
      split: promise.splits if_splits)

lemma validateMessage_success:
  "outcome (validateMessage st message s) = Resolves (Inr m')
   \<Longrightarrow> validationsValidateMessage st message = Resolves (Inr m')"
  using step2_success [of st message s m']
  by (auto simp add: validateMessage_def await_eq fromPromise_callRead resolve_def
      split: promise.splits if_splits)

section \<open>The validation gate\<close>

lemmas memory_simps =
  memoryCollaborators_def sampleDb_def castMessage_def fnameMessage_def signerMessage_def
  memGetCustodyAddress_def memValidateMessage_def memIdRegistryEventModelGet_def
  memNameRegistryEventModelGet_def memMerge_def memRevoke_def memValidateFid_def
  isSignerAdd_def isSignerRemove_def isUserDataAdd_def textEncode_def notFound_def

text \<open>
  C4.  When the custody address of the account of a message does not resolve (the lookup
  of the signer store rejects), \<^verbatim>\<open>validateMessage\<close> fails with the validation failure
  \<^verbatim>\<open>unknown user\<close>, the unknown-account error of the specification.  This is the first
  check: the custody lookup is the only call made, so neither the signer lookup, nor the
  registry lookups of the fname check, nor the schema and signature validation has run,
  and \<^verbatim>\<open>mergeMessage\<close> returns the same error without calling any store merge.
\<close>

theorem unknown_account_fails_first:
  assumes "signerStoreGetCustodyAddress st s (messageFid message) = Rejects e"
  shows "validateMessage st message s =
           (Resolves (Inl (HubError ''bad_request.validation_failure'' ''unknown user'')),
            [SignerStoreGetCustodyAddress (messageFid message)], s)
         \<and> mergeMessage st message source s =
           (Resolves (Inl (HubError ''bad_request.validation_failure'' ''unknown user'')),
            [SignerStoreGetCustodyAddress (messageFid message)], s)"
proof -
  have v: "validateMessage st message s =
           (Resolves (Inl (HubError ''bad_request.validation_failure'' ''unknown user'')),
            [SignerStoreGetCustodyAddress (messageFid message)], s)"
    using assms by (rule validateMessage_unknown)
  from v mergeMessage_invalid [OF v] show ?thesis by simp
qed

theorem unknown_account_fails_first_witness:
  "signerStoreGetCustodyAddress memoryCollaborators sampleDb
     (messageFid (castMessage\<lparr>messageFid := [2]\<rparr>)) = Rejects notFound
   \<and> validateMessage memoryCollaborators (castMessage\<lparr>messageFid := [2]\<rparr>) sampleDb =
       (Resolves (Inl (HubError ''bad_request.validation_failure'' ''unknown user'')),
        [SignerStoreGetCustodyAddress [2]], sampleDb)
   \<and> mergeMessage memoryCollaborators (castMessage\<lparr>messageFid := [2]\<rparr>) ''rpc'' sampleDb =
       (Resolves (Inl (HubError ''bad_request.validation_failure'' ''unknown user'')),
        [SignerStoreGetCustodyAddress [2]], sampleDb)"
proof -
  have h: "signerStoreGetCustodyAddress memoryCollaborators sampleDb
     (messageFid (castMessage\<lparr>messageFid := [2]\<rparr>)) = Rejects notFound"
    by (simp add: memory_simps)
  from unknown_account_fails_first [OF h, of "''rpc''"] h show ?thesis
    by (simp add: castMessage_def)
qed

lemma signer_message_no_lookup:
  assumes "isSignerAdd message \<or> isSignerRemove message"
    and "c \<in> set (calls (validateMessage st message s))"
  shows "\<not> isSignerLookup c"
proof -
  have "c = SignerStoreGetCustodyAddress (messageFid message)
        \<or> isRegistryLookup c \<or> c = ValidationsValidateMessage message"
    using assms step3_frame [of st message s]
    by (auto simp add: validateMessage_def await_eq fromPromise_callRead resolve_def
        step2_signer_message split: promise.splits)
  then show ?thesis
    by (cases c rule: isRegistryLookup.cases) auto
qed

text \<open>
  C1, as amended.  For a message that is neither a Signer Add nor a Signer Remove and
  whose account has a custody address: when the signer key of the message is not an
  active signer of the account (the lookup of the Signer Add rejects),
  \<^verbatim>\<open>validateMessage\<close> and \<^verbatim>\<open>mergeMessage\<close> fail with the validation failure
  \<^verbatim>\<open>invalid signer\<close>, having made the custody lookup and the signer lookup and no other
  call, so that no store merge is performed and the database is unchanged.  For a Signer
  Add or Signer Remove, validation makes no signer lookup at all.
\<close>

theorem invalid_signer_rejected:
  "(signerStoreGetCustodyAddress st s (messageFid message) = Resolves a
    \<and> \<not> isSignerAdd message \<and> \<not> isSignerRemove message
    \<and> storeGetOne st s (GetSignerAdd (messageFid message) (messageSigner message)) = Rejects e
    \<longrightarrow> validateMessage st message s =
          (Resolves (Inl (HubError ''bad_request.validation_failure'' ''invalid signer'')),
           [SignerStoreGetCustodyAddress (messageFid message),
            StoreGetOne (GetSignerAdd (messageFid message) (messageSigner message))], s)
        \<and> mergeMessage st message source s =
          (Resolves (Inl (HubError ''bad_request.validation_failure'' ''invalid signer'')),
           [SignerStoreGetCustodyAddress (messageFid message),
            StoreGetOne (GetSignerAdd (messageFid message) (messageSigner message))], s))
   \<and> (isSignerAdd message \<or> isSignerRemove message
      \<longrightarrow> (\<forall>c \<in> set (calls (validateMessage st message s)). \<not> isSignerLookup c))"
proof (intro conjI impI ballI)
  assume h: "signerStoreGetCustodyAddress st s (messageFid message) = Resolves a
    \<and> \<not> isSignerAdd message \<and> \<not> isSignerRemove message
    \<and> storeGetOne st s (GetSignerAdd (messageFid message) (messageSigner message)) = Rejects e"
  then have v: "validateMessage st message s =
          (Resolves (Inl (HubError ''bad_request.validation_failure'' ''invalid signer'')),
           [SignerStoreGetCustodyAddress (messageFid message),
            StoreGetOne (GetSignerAdd (messageFid message) (messageSigner message))], s)"
    by (simp add: validateMessage_known step2_invalid_signer)
  then show "validateMessage st message s =
          (Resolves (Inl (HubError ''bad_request.validation_failure'' ''invalid signer'')),
           [SignerStoreGetCustodyAddress (messageFid message),
            StoreGetOne (GetSignerAdd (messageFid message) (messageSigner message))], s)" .
  from v show "mergeMessage st message source s =
          (Resolves (Inl (HubError ''bad_request.validation_failure'' ''invalid signer'')),
           [SignerStoreGetCustodyAddress (messageFid message),
            StoreGetOne (GetSignerAdd (messageFid message) (messageSigner message))], s)"
    by (rule mergeMessage_invalid)
next
  fix c
  assume "isSignerAdd message \<or> isSignerRemove message"
    and "c \<in> set (calls (validateMessage st message s))"
  then show "\<not> isSignerLookup c" by (rule signer_message_no_lookup)
qed

theorem invalid_signer_rejected_witness:
  "signerStoreGetCustodyAddress memoryCollaborators sampleDb [1] = Resolves [170]
   \<and> \<not> isSignerAdd (castMessage\<lparr>messageSigner := [8]\<rparr>)
   \<and> \<not> isSignerRemove (castMessage\<lparr>messageSigner := [8]\<rparr>)
   \<and> storeGetOne memoryCollaborators sampleDb (GetSignerAdd [1] [8]) = Rejects notFound
   \<and> mergeMessage memoryCollaborators (castMessage\<lparr>messageSigner := [8]\<rparr>) ''rpc'' sampleDb =
       (Resolves (Inl (HubError ''bad_request.validation_failure'' ''invalid signer'')),
        [SignerStoreGetCustodyAddress [1], StoreGetOne (GetSignerAdd [1] [8])], sampleDb)
   \<and> isSignerAdd signerMessage
   \<and> filter isSignerLookup (calls (validateMessage memoryCollaborators signerMessage sampleDb)) = []"
proof -
  have h: "signerStoreGetCustodyAddress memoryCollaborators sampleDb
             (messageFid (castMessage\<lparr>messageSigner := [8]\<rparr>)) = Resolves [170]
   \<and> \<not> isSignerAdd (castMessage\<lparr>messageSigner := [8]\<rparr>)
   \<and> \<not> isSignerRemove (castMessage\<lparr>messageSigner := [8]\<rparr>)
   \<and> storeGetOne memoryCollaborators sampleDb
        (GetSignerAdd (messageFid (castMessage\<lparr>messageSigner := [8]\<rparr>))
           (messageSigner (castMessage\<lparr>messageSigner := [8]\<rparr>))) = Rejects notFound"
    by (simp add: memory_simps)
  have g: "isSignerAdd signerMessage"
    by (simp add: memory_simps)
  from invalid_signer_rejected
         [of memoryCollaborators sampleDb "castMessage\<lparr>messageSigner := [8]\<rparr>" "[170]" notFound "''rpc''"]
       h
  have 1: "mergeMessage memoryCollaborators (castMessage\<lparr>messageSigner := [8]\<rparr>) ''rpc'' sampleDb =
       (Resolves (Inl (HubError ''bad_request.validation_failure'' ''invalid signer'')),
        [SignerStoreGetCustodyAddress [1], StoreGetOne (GetSignerAdd [1] [8])], sampleDb)"
    by (simp add: castMessage_def)
  from invalid_signer_rejected [of memoryCollaborators sampleDb signerMessage] g
  have 2: "filter isSignerLookup (calls (validateMessage memoryCollaborators signerMessage sampleDb)) = []"
    by (simp add: filter_empty_conv)
  from h g 1 2 show ?thesis by (simp add: castMessage_def)
qed

text \<open>
  The claim C1 without the condition on the custody address fails: a cast of an account
  that has no custody address, signed by a key that is not an active signer, is rejected
  with \<^verbatim>\<open>unknown user\<close>, not with \<^verbatim>\<open>invalid signer\<close>.
\<close>

theorem invalid_signer_unknown_account_counterexample:
  "\<not> isSignerAdd (castMessage\<lparr>messageFid := [2], messageSigner := [8]\<rparr>)
   \<and> \<not> isSignerRemove (castMessage\<lparr>messageFid := [2], messageSigner := [8]\<rparr>)
   \<and> storeGetOne memoryCollaborators sampleDb (GetSignerAdd [2] [8]) = Rejects notFound
   \<and> validateMessage memoryCollaborators (castMessage\<lparr>messageFid := [2], messageSigner := [8]\<rparr>) sampleDb =
       (Resolves (Inl (HubError ''bad_request.validation_failure'' ''unknown user'')),
        [SignerStoreGetCustodyAddress [2]], sampleDb)
   \<and> HubError ''bad_request.validation_failure'' ''unknown user''
       \<noteq> HubError ''bad_request.validation_failure'' ''invalid signer''"
proof -
  have "signerStoreGetCustodyAddress memoryCollaborators sampleDb
          (messageFid (castMessage\<lparr>messageFid := [2], messageSigner := [8]\<rparr>)) = Rejects notFound"
    by (simp add: memory_simps)
  from validateMessage_unknown [OF this] show ?thesis
    by (simp add: memory_simps)
qed

text \<open>
  C9.  \<^verbatim>\<open>validateMessage\<close> is a pure check.  For every message it leaves the database as
  it found it, and none of the calls it makes is a merge or a revocation: it only reads,
  validates and returns.  When it succeeds, the message it returns is the one the message
  validator returned for the input message, the engine changing nothing of it; so with a
  validator that returns the message it is given, the result is the input message.
\<close>

theorem validateMessage_is_pure:
  "finalState (validateMessage st message s) = s
   \<and> (\<forall>c \<in> set (calls (validateMessage st message s)). \<not> isMutation c)
   \<and> (outcome (validateMessage st message s) = Resolves (Inr m')
        \<longrightarrow> validationsValidateMessage st message = Resolves (Inr m'))
   \<and> (outcome (validateMessage st message s) = Resolves (Inr m')
        \<and> (\<forall>x y. validationsValidateMessage st x = Resolves (Inr y) \<longrightarrow> y = x)
        \<longrightarrow> m' = message)"
proof (intro conjI impI ballI)
  show "finalState (validateMessage st message s) = s"
    using validateMessage_frame [of st message s] by simp
next
  fix c
  assume "c \<in> set (calls (validateMessage st message s))"
  then show "\<not> isMutation c" by (rule validateMessage_no_mutation)
next
  assume "outcome (validateMessage st message s) = Resolves (Inr m')"
  then show "validationsValidateMessage st message = Resolves (Inr m')"
    by (rule validateMessage_success)
next
  assume h: "outcome (validateMessage st message s) = Resolves (Inr m')
        \<and> (\<forall>x y. validationsValidateMessage st x = Resolves (Inr y) \<longrightarrow> y = x)"
  then have "outcome (validateMessage st message s) = Resolves (Inr m')" by simp
  then have "validationsValidateMessage st message = Resolves (Inr m')"
    by (rule validateMessage_success)
  with h show "m' = message" by blast
qed

lemma memValidateMessage_identity:
  "validationsValidateMessage memoryCollaborators x = Resolves (Inr y) \<Longrightarrow> y = x"
  by (simp add: memoryCollaborators_def memValidateMessage_def split: if_splits)

lemma validate_castMessage:
  "validateMessage memoryCollaborators castMessage sampleDb =
     (Resolves (Inr castMessage),
      [SignerStoreGetCustodyAddress [1], StoreGetOne (GetSignerAdd [1] [7]),
       ValidationsValidateMessage castMessage], sampleDb)"
proof -
  have 1: "signerStoreGetCustodyAddress memoryCollaborators sampleDb (messageFid castMessage) = Resolves [170]"
    by (simp add: memory_simps)
  have 2: "storeGetOne memoryCollaborators sampleDb
             (GetSignerAdd (messageFid castMessage) (messageSigner castMessage))
           = Resolves (signerAddMessage [1] [7])"
    by (simp add: memory_simps)
  have 3: "\<not> isSignerAdd castMessage" "\<not> isSignerRemove castMessage" "\<not> isUserDataAdd castMessage"
    by (simp_all add: memory_simps)
  have 4: "validationsValidateMessage memoryCollaborators castMessage = Resolves (Inr castMessage)"
    by (simp add: memory_simps)
  have 5: "messageFid castMessage = [1]" "messageSigner castMessage = [7]"
    by (simp_all add: castMessage_def)
  show ?thesis
    by (simp add: validateMessage_known [OF 1] step2_valid_signer [OF 3(1) 3(2) 2]
        step3_skipped 3 step4_eq 4 5)
qed

theorem validateMessage_is_pure_witness:
  "outcome (validateMessage memoryCollaborators castMessage sampleDb) = Resolves (Inr castMessage)
   \<and> finalState (validateMessage memoryCollaborators castMessage sampleDb) = sampleDb
   \<and> filter isMutation (calls (validateMessage memoryCollaborators castMessage sampleDb)) = []
   \<and> validationsValidateMessage memoryCollaborators castMessage = Resolves (Inr castMessage)"
proof -
  have a: "outcome (validateMessage memoryCollaborators castMessage sampleDb) = Resolves (Inr castMessage)"
    by (simp add: validate_castMessage)
  have b: "\<forall>x y. validationsValidateMessage memoryCollaborators x = Resolves (Inr y) \<longrightarrow> y = x"
    using memValidateMessage_identity by blast
  from validateMessage_is_pure [of memoryCollaborators castMessage sampleDb castMessage] a b
  show ?thesis
    by (simp add: filter_empty_conv)
qed


lemma compareByteLists_zero: "(compareByteLists a b = 0) = (a = b)"
  by (induction a b rule: compareByteLists.induct) auto

lemma memBytesCompare_contents: "comparesContents memBytesCompare"
  by (simp add: comparesContents_def compareByteLists_zero)

lemma comparesContents_verdict:
  assumes "comparesContents cmp" "x \<noteq> None \<or> y \<noteq> None"
  shows "(cmp x y \<noteq> 0) = (x \<noteq> y)"
  using assms by (cases x; cases y) (auto simp add: comparesContents_def)

lemma validateMessage_fname_checked:
  assumes "signerStoreGetCustodyAddress st s (messageFid message) = Resolves a"
    and "storeGetOne st s (GetSignerAdd (messageFid message) (messageSigner message)) = Resolves sa"
    and "dataType message = Some UserDataAdd"
    and "body message = UserDataBody Fname (Some name)" "name \<noteq> []"
    and "idRegistryEventModelGet st s (messageFid message) = Resolves fidEvent"
    and "nameRegistryEventModelGet st s (textEncode name) = Resolves fnameEvent"
  shows "validateMessage st message s =
    (if bytesCompare st (map_option idEventTo fidEvent) (map_option nameEventTo fnameEvent) \<noteq> 0
     then (Resolves (Inl (HubError ''bad_request.validation_failure''
                           ''fname custody address does not match fid custody address'')),
           [SignerStoreGetCustodyAddress (messageFid message),
            StoreGetOne (GetSignerAdd (messageFid message) (messageSigner message)),
            IdRegistryEventModelGet (messageFid message),
            NameRegistryEventModelGet (textEncode name)], s)
     else (validationsValidateMessage st message,
           [SignerStoreGetCustodyAddress (messageFid message),
            StoreGetOne (GetSignerAdd (messageFid message) (messageSigner message)),
            IdRegistryEventModelGet (messageFid message),
            NameRegistryEventModelGet (textEncode name),
            ValidationsValidateMessage message], s))"
proof -
  have g: "\<not> isSignerAdd message" "\<not> isSignerRemove message" "isUserDataAdd message"
    using assms(3) by (simp_all add: isSignerAdd_def isSignerRemove_def isUserDataAdd_def)
  show ?thesis
    by (simp add: validateMessage_known [OF assms(1)] step2_valid_signer [OF g(1) g(2) assms(2)]
        step3_checked [OF g(3) assms(4) assms(5) assms(6) assms(7)])
qed

lemma validateMessage_fname_skipped:
  assumes "signerStoreGetCustodyAddress st s (messageFid message) = Resolves a"
    and "storeGetOne st s (GetSignerAdd (messageFid message) (messageSigner message)) = Resolves sa"
    and "dataType message = Some UserDataAdd"
    and "body message = UserDataBody Fname v" "v = None \<or> v = Some []"
  shows "validateMessage st message s =
    (validationsValidateMessage st message,
     [SignerStoreGetCustodyAddress (messageFid message),
      StoreGetOne (GetSignerAdd (messageFid message) (messageSigner message)),
      ValidationsValidateMessage message], s)"
proof -
  have g: "\<not> isSignerAdd message" "\<not> isSignerRemove message"
    using assms(3) by (simp_all add: isSignerAdd_def isSignerRemove_def)
  have k: "bodyValue (body message) = None \<or> bodyValue (body message) = Some []"
    using assms(4) assms(5) by auto
  show ?thesis
    by (simp add: validateMessage_known [OF assms(1)] step2_valid_signer [OF g(1) g(2) assms(2)]
        step3_skipped k step4_eq)
qed

text \<open>
  C2, as amended.  Take a UserData Add of type Fname whose account has a custody address
  and whose signer key is active.  With a non-empty value and both registry lookups
  resolving, validation fails with the validation failure
  \<^verbatim>\<open>fname custody address does not match fid custody address\<close>
  exactly when \<^verbatim>\<open>bytesCompare\<close> of the two looked-up
  addresses is not zero, and otherwise goes on to the message validator; a lookup that
  found no event gives an absent address to the same comparison.  For a comparison of
  contents this means: the check fails exactly when the two addresses differ, an absent
  one differing from a present one.  With an absent or empty value no registry lookup is
  made and no comparison: validation goes from the signer check to the message validator.
\<close>

theorem fname_custody_checked:
  assumes "signerStoreGetCustodyAddress st s (messageFid message) = Resolves a"
    and "storeGetOne st s (GetSignerAdd (messageFid message) (messageSigner message)) = Resolves sa"
    and "dataType message = Some UserDataAdd"
    and "body message = UserDataBody Fname v"
  shows
    "(v = Some name \<and> name \<noteq> []
      \<and> idRegistryEventModelGet st s (messageFid message) = Resolves fidEvent
      \<and> nameRegistryEventModelGet st s (textEncode name) = Resolves fnameEvent
      \<longrightarrow> validateMessage st message s =
            (if bytesCompare st (map_option idEventTo fidEvent) (map_option nameEventTo fnameEvent) \<noteq> 0
             then (Resolves (Inl (HubError ''bad_request.validation_failure''
                                   ''fname custody address does not match fid custody address'')),
                   [SignerStoreGetCustodyAddress (messageFid message),
                    StoreGetOne (GetSignerAdd (messageFid message) (messageSigner message)),
                    IdRegistryEventModelGet (messageFid message),
                    NameRegistryEventModelGet (textEncode name)], s)
             else (validationsValidateMessage st message,
                   [SignerStoreGetCustodyAddress (messageFid message),
                    StoreGetOne (GetSignerAdd (messageFid message) (messageSigner message)),
                    IdRegistryEventModelGet (messageFid message),
                    NameRegistryEventModelGet (textEncode name),
                    ValidationsValidateMessage message], s))
          \<and> (comparesContents (bytesCompare st) \<and> (fidEvent \<noteq> None \<or> fnameEvent \<noteq> None)
              \<longrightarrow> (bytesCompare st (map_option idEventTo fidEvent) (map_option nameEventTo fnameEvent) \<noteq> 0)
                   = (map_option idEventTo fidEvent \<noteq> map_option nameEventTo fnameEvent)))
     \<and> (v = None \<or> v = Some []
        \<longrightarrow> validateMessage st message s =
              (validationsValidateMessage st message,
               [SignerStoreGetCustodyAddress (messageFid message),
                StoreGetOne (GetSignerAdd (messageFid message) (messageSigner message)),
                ValidationsValidateMessage message], s))"
proof (intro conjI impI)
  assume h: "v = Some name \<and> name \<noteq> []
      \<and> idRegistryEventModelGet st s (messageFid message) = Resolves fidEvent
      \<and> nameRegistryEventModelGet st s (textEncode name) = Resolves fnameEvent"
  then have b: "body message = UserDataBody Fname (Some name)" using assms(4) by simp
  from h have n: "name \<noteq> []" and i: "idRegistryEventModelGet st s (messageFid message) = Resolves fidEvent"
    and f: "nameRegistryEventModelGet st s (textEncode name) = Resolves fnameEvent"
    by simp_all
  show "validateMessage st message s =
            (if bytesCompare st (map_option idEventTo fidEvent) (map_option nameEventTo fnameEvent) \<noteq> 0
             then (Resolves (Inl (HubError ''bad_request.validation_failure''
                                   ''fname custody address does not match fid custody address'')),
                   [SignerStoreGetCustodyAddress (messageFid message),
                    StoreGetOne (GetSignerAdd (messageFid message) (messageSigner message)),
                    IdRegistryEventModelGet (messageFid message),
                    NameRegistryEventModelGet (textEncode name)], s)
             else (validationsValidateMessage st message,
                   [SignerStoreGetCustodyAddress (messageFid message),
                    StoreGetOne (GetSignerAdd (messageFid message) (messageSigner message)),
                    IdRegistryEventModelGet (messageFid message),
                    NameRegistryEventModelGet (textEncode name),
                    ValidationsValidateMessage message], s))"
    by (rule validateMessage_fname_checked [OF assms(1) assms(2) assms(3) b n i f])
next
  assume "comparesContents (bytesCompare st) \<and> (fidEvent \<noteq> None \<or> fnameEvent \<noteq> None)"
  then have c: "comparesContents (bytesCompare st)"
    and d: "map_option idEventTo fidEvent \<noteq> None \<or> map_option nameEventTo fnameEvent \<noteq> None"
    by simp_all
  show "(bytesCompare st (map_option idEventTo fidEvent) (map_option nameEventTo fnameEvent) \<noteq> 0)
        = (map_option idEventTo fidEvent \<noteq> map_option nameEventTo fnameEvent)"
    by (rule comparesContents_verdict [OF c d])
next
  assume "v = None \<or> v = Some []"
  then show "validateMessage st message s =
              (validationsValidateMessage st message,
               [SignerStoreGetCustodyAddress (messageFid message),
                StoreGetOne (GetSignerAdd (messageFid message) (messageSigner message)),
                ValidationsValidateMessage message], s)"
    by (rule validateMessage_fname_skipped [OF assms(1) assms(2) assms(3) assms(4)])
qed


lemma sample_lookups:
  "signerStoreGetCustodyAddress memoryCollaborators sampleDb [1] = Resolves [170]"
  "storeGetOne memoryCollaborators sampleDb (GetSignerAdd [1] [7]) = Resolves (signerAddMessage [1] [7])"
  "idRegistryEventModelGet memoryCollaborators sampleDb [1] =
     Resolves (Some \<lparr>idEventType = IdRegistryRegister, idEventFid = [1], idEventTo = [170]\<rparr>)"
  "nameRegistryEventModelGet memoryCollaborators sampleDb (textEncode ''alice'') =
     Resolves (Some \<lparr>nameEventType = NameRegistryTransfer, nameEventFname = textEncode ''alice'',
                     nameEventTo = [170]\<rparr>)"
  "nameRegistryEventModelGet memoryCollaborators sampleDb (textEncode ''bob'') =
     Resolves (Some \<lparr>nameEventType = NameRegistryTransfer, nameEventFname = textEncode ''bob'',
                     nameEventTo = [187]\<rparr>)"
  "nameRegistryEventModelGet memoryCollaborators sampleDb (textEncode ''carol'') = Resolves None"
  by (simp_all add: memory_simps)

lemma fnameMessage_fields:
  "messageFid (fnameMessage v) = [1]" "messageSigner (fnameMessage v) = [7]"
  "dataType (fnameMessage v) = Some UserDataAdd" "body (fnameMessage v) = UserDataBody Fname v"
  by (simp_all add: fnameMessage_def)

theorem fname_custody_checked_witness:
  "signerStoreGetCustodyAddress memoryCollaborators sampleDb [1] = Resolves [170]
   \<and> storeGetOne memoryCollaborators sampleDb (GetSignerAdd [1] [7]) = Resolves (signerAddMessage [1] [7])
   \<and> comparesContents (bytesCompare memoryCollaborators)
   \<and> validateMessage memoryCollaborators (fnameMessage (Some ''alice'')) sampleDb =
       (Resolves (Inr (fnameMessage (Some ''alice''))),
        [SignerStoreGetCustodyAddress [1], StoreGetOne (GetSignerAdd [1] [7]),
         IdRegistryEventModelGet [1], NameRegistryEventModelGet (textEncode ''alice''),
         ValidationsValidateMessage (fnameMessage (Some ''alice''))], sampleDb)
   \<and> validateMessage memoryCollaborators (fnameMessage (Some ''bob'')) sampleDb =
       (Resolves (Inl (HubError ''bad_request.validation_failure''
                        ''fname custody address does not match fid custody address'')),
        [SignerStoreGetCustodyAddress [1], StoreGetOne (GetSignerAdd [1] [7]),
         IdRegistryEventModelGet [1], NameRegistryEventModelGet (textEncode ''bob'')], sampleDb)
   \<and> validateMessage memoryCollaborators (fnameMessage (Some ''carol'')) sampleDb =
       (Resolves (Inl (HubError ''bad_request.validation_failure''
                        ''fname custody address does not match fid custody address'')),
        [SignerStoreGetCustodyAddress [1], StoreGetOne (GetSignerAdd [1] [7]),
         IdRegistryEventModelGet [1], NameRegistryEventModelGet (textEncode ''carol'')], sampleDb)
   \<and> validateMessage memoryCollaborators (fnameMessage (Some [])) sampleDb =
       (Resolves (Inr (fnameMessage (Some []))),
        [SignerStoreGetCustodyAddress [1], StoreGetOne (GetSignerAdd [1] [7]),
         ValidationsValidateMessage (fnameMessage (Some []))], sampleDb)"
proof -
  have c: "signerStoreGetCustodyAddress memoryCollaborators sampleDb (messageFid (fnameMessage v)) = Resolves [170]"
    for v by (simp add: fnameMessage_fields sample_lookups)
  have g: "storeGetOne memoryCollaborators sampleDb
             (GetSignerAdd (messageFid (fnameMessage v)) (messageSigner (fnameMessage v)))
           = Resolves (signerAddMessage [1] [7])"
    for v by (simp add: fnameMessage_fields sample_lookups)
  have cmp: "comparesContents (bytesCompare memoryCollaborators)"
    by (simp add: memoryCollaborators_def memBytesCompare_contents)
  have cmpv: "bytesCompare memoryCollaborators = memBytesCompare"
    by (simp add: memoryCollaborators_def)
  have ok: "validationsValidateMessage memoryCollaborators (fnameMessage v) = Resolves (Inr (fnameMessage v))"
    for v by (simp add: memoryCollaborators_def memValidateMessage_def fnameMessage_def)
  note T = fname_custody_checked [OF c g fnameMessage_fields(3) fnameMessage_fields(4)]
  from T [where name = "''alice''"
            and fidEvent = "Some \<lparr>idEventType = IdRegistryRegister, idEventFid = [1], idEventTo = [170]\<rparr>"
            and fnameEvent = "Some \<lparr>nameEventType = NameRegistryTransfer,
                                      nameEventFname = textEncode ''alice'', nameEventTo = [170]\<rparr>"
            and v = "Some ''alice''"]
  have 1: "validateMessage memoryCollaborators (fnameMessage (Some ''alice'')) sampleDb =
       (Resolves (Inr (fnameMessage (Some ''alice''))),
        [SignerStoreGetCustodyAddress [1], StoreGetOne (GetSignerAdd [1] [7]),
         IdRegistryEventModelGet [1], NameRegistryEventModelGet (textEncode ''alice''),
         ValidationsValidateMessage (fnameMessage (Some ''alice''))], sampleDb)"
    by (simp add: fnameMessage_fields sample_lookups cmpv ok)
  from T [where name = "''bob''"
            and fidEvent = "Some \<lparr>idEventType = IdRegistryRegister, idEventFid = [1], idEventTo = [170]\<rparr>"
            and fnameEvent = "Some \<lparr>nameEventType = NameRegistryTransfer,
                                      nameEventFname = textEncode ''bob'', nameEventTo = [187]\<rparr>"
            and v = "Some ''bob''"]
  have 2: "validateMessage memoryCollaborators (fnameMessage (Some ''bob'')) sampleDb =
       (Resolves (Inl (HubError ''bad_request.validation_failure''
                        ''fname custody address does not match fid custody address'')),
        [SignerStoreGetCustodyAddress [1], StoreGetOne (GetSignerAdd [1] [7]),
         IdRegistryEventModelGet [1], NameRegistryEventModelGet (textEncode ''bob'')], sampleDb)"
    by (simp add: fnameMessage_fields sample_lookups cmpv)
  from T [where name = "''carol''"
            and fidEvent = "Some \<lparr>idEventType = IdRegistryRegister, idEventFid = [1], idEventTo = [170]\<rparr>"
            and fnameEvent = "None"
            and v = "Some ''carol''"]
  have 3: "validateMessage memoryCollaborators (fnameMessage (Some ''carol'')) sampleDb =
       (Resolves (Inl (HubError ''bad_request.validation_failure''
                        ''fname custody address does not match fid custody address'')),
        [SignerStoreGetCustodyAddress [1], StoreGetOne (GetSignerAdd [1] [7]),
         IdRegistryEventModelGet [1], NameRegistryEventModelGet (textEncode ''carol'')], sampleDb)"
    by (simp add: fnameMessage_fields sample_lookups cmpv)
  from T [where v = "Some []"]
  have 4: "validateMessage memoryCollaborators (fnameMessage (Some [])) sampleDb =
       (Resolves (Inr (fnameMessage (Some []))),
        [SignerStoreGetCustodyAddress [1], StoreGetOne (GetSignerAdd [1] [7]),
         ValidationsValidateMessage (fnameMessage (Some []))], sampleDb)"
    by (simp add: fnameMessage_fields ok)
  from sample_lookups(1) sample_lookups(2) cmp 1 2 3 4 show ?thesis by blast
qed

text \<open>
  The claim C2 as stated fails for a missing custody binding: a UserData Add that sets
  the registered name \<^verbatim>\<open>alice\<close> for an account without custody event is rejected by the
  first check with \<^verbatim>\<open>unknown user\<close>; it never reaches the comparison and does not get
  the mismatch error.
\<close>

theorem fname_missing_custody_counterexample:
  "dataType ((fnameMessage (Some ''alice''))\<lparr>messageFid := [2]\<rparr>) = Some UserDataAdd
   \<and> body ((fnameMessage (Some ''alice''))\<lparr>messageFid := [2]\<rparr>) = UserDataBody Fname (Some ''alice'')
   \<and> idRegistryEventModelGet memoryCollaborators sampleDb [2] = Resolves None
   \<and> validateMessage memoryCollaborators ((fnameMessage (Some ''alice''))\<lparr>messageFid := [2]\<rparr>) sampleDb =
       (Resolves (Inl (HubError ''bad_request.validation_failure'' ''unknown user'')),
        [SignerStoreGetCustodyAddress [2]], sampleDb)
   \<and> HubError ''bad_request.validation_failure'' ''unknown user''
       \<noteq> HubError ''bad_request.validation_failure''
            ''fname custody address does not match fid custody address''"
proof -
  have "signerStoreGetCustodyAddress memoryCollaborators sampleDb
          (messageFid ((fnameMessage (Some ''alice''))\<lparr>messageFid := [2]\<rparr>)) = Rejects notFound"
    by (simp add: memory_simps)
  from validateMessage_unknown [OF this] show ?thesis
    by (simp add: memory_simps)
qed

section \<open>Merge dispatch and registry events\<close>

lemma thenLogMerge_storeMergeCall:
  "thenLogMerge message source (storeMergeCall st store message) s =
     (Resolves (mergeResult (fst (storeMerge st store message s))),
      StoreMerge store message # mergeLog message source (fst (storeMerge st store message s)),
      snd (storeMerge st store message s))"
  by (cases "fst (storeMerge st store message s)")
     (simp_all add: thenLogMerge_def storeMergeCall_def await_eq fromPromise_callWrite
        loggerInfo_def resolve_def)

lemma mergeMessage_valid_other:
  assumes "outcome (validateMessage st message s) = Resolves (Inr validated)"
    and "categoryStore (setPostfix message) = None"
  shows "mergeMessage st message source s =
     (Resolves (Inl (HubError ''bad_request.validation_failure'' ''invalid message type'')),
      calls (validateMessage st message s), s)"
proof -
  have f: "finalState (validateMessage st message s) = s"
    using validateMessage_frame [of st message s] by simp
  from assms(2) show ?thesis
    by (cases "setPostfix message") (simp_all add: mergeMessage_def await_eq assms(1) f resolve_def)
qed

lemma mergeMessage_valid_category:
  assumes "outcome (validateMessage st message s) = Resolves (Inr validated)"
    and "categoryStore (setPostfix message) = Some store"
  shows "mergeMessage st message source s =
     (Resolves (mergeResult (fst (storeMerge st store message s))),
      calls (validateMessage st message s)
        @ StoreMerge store message # mergeLog message source (fst (storeMerge st store message s)),
      snd (storeMerge st store message s))"
proof -
  have f: "finalState (validateMessage st message s) = s"
    using validateMessage_frame [of st message s] by simp
  from assms(2) show ?thesis
    by (cases "setPostfix message")
       (auto simp add: mergeMessage_def await_eq assms(1) f thenLogMerge_storeMergeCall)
qed

lemma validateMessage_no_merge: "filter isStoreMerge (calls (validateMessage st message s)) = []"
proof -
  have "\<not> isStoreMerge c" if "c \<in> set (calls (validateMessage st message s))" for c
    using validateMessage_no_mutation [OF that] by (cases c) auto
  then show ?thesis by (simp add: filter_empty_conv)
qed

lemma mergeLog_no_merge: "filter isStoreMerge (mergeLog message source p) = []"
  by (cases p) simp_all

lemma mergeMessage_merges:
  "filter isStoreMerge (calls (mergeMessage st message source s)) = []
   \<or> (\<exists>store. categoryStore (setPostfix message) = Some store
         \<and> filter isStoreMerge (calls (mergeMessage st message source s)) = [StoreMerge store message])"
proof (cases "outcome (validateMessage st message s)")
  case (Rejects e)
  then have "validateMessage st message s =
      (Rejects e, calls (validateMessage st message s), finalState (validateMessage st message s))"
    using triple_eq [of "validateMessage st message s"] by simp
  then have "calls (mergeMessage st message source s) = calls (validateMessage st message s)"
    by (simp add: mergeMessage_rejected)
  then show ?thesis by (simp add: validateMessage_no_merge)
next
  case (Resolves r)
  show ?thesis
  proof (cases r)
    case (Inl e)
    with Resolves have "validateMessage st message s =
        (Resolves (Inl e), calls (validateMessage st message s), finalState (validateMessage st message s))"
      using triple_eq [of "validateMessage st message s"] by simp
    then have "calls (mergeMessage st message source s) = calls (validateMessage st message s)"
      by (simp add: mergeMessage_invalid)
    then show ?thesis by (simp add: validateMessage_no_merge)
  next
    case (Inr validated)
    with Resolves have v: "outcome (validateMessage st message s) = Resolves (Inr validated)" by simp
    show ?thesis
    proof (cases "categoryStore (setPostfix message)")
      case None
      then show ?thesis
        by (simp add: mergeMessage_valid_other [OF v None] validateMessage_no_merge)
    next
      case (Some store)
      then show ?thesis
        by (simp add: mergeMessage_valid_category [OF v Some] validateMessage_no_merge mergeLog_no_merge)
    qed
  qed
qed

text \<open>
  C5.  For a message that passes validation: when its postfix is none of the six
  categories, \<^verbatim>\<open>mergeMessage\<close> returns the validation failure \<^verbatim>\<open>invalid message type\<close>
  having made the calls of validation only, no merge of any store among them; when its
  postfix is one of the six, \<^verbatim>\<open>mergeMessage\<close> calls the merge of the store of that
  category with the message, once, and no other merge, returns what that store returned
  and logs a success.  Whatever validation says, the merges \<^verbatim>\<open>mergeMessage\<close> makes are
  either none or the one merge of the store of the category of the message.
\<close>

theorem merge_dispatches_by_category:
  "(outcome (validateMessage st message s) = Resolves (Inr validated)
    \<and> categoryStore (setPostfix message) = None
    \<longrightarrow> mergeMessage st message source s =
          (Resolves (Inl (HubError ''bad_request.validation_failure'' ''invalid message type'')),
           calls (validateMessage st message s), s)
        \<and> filter isStoreMerge (calls (mergeMessage st message source s)) = [])
   \<and> (outcome (validateMessage st message s) = Resolves (Inr validated)
      \<and> categoryStore (setPostfix message) = Some store
      \<longrightarrow> mergeMessage st message source s =
            (Resolves (mergeResult (fst (storeMerge st store message s))),
             calls (validateMessage st message s)
               @ StoreMerge store message
                 # mergeLog message source (fst (storeMerge st store message s)),
             snd (storeMerge st store message s))
          \<and> filter isStoreMerge (calls (mergeMessage st message source s)) = [StoreMerge store message])
   \<and> (filter isStoreMerge (calls (mergeMessage st message source s)) = []
      \<or> (\<exists>store'. categoryStore (setPostfix message) = Some store'
            \<and> filter isStoreMerge (calls (mergeMessage st message source s))
                = [StoreMerge store' message]))"
proof (intro conjI impI)
  show "filter isStoreMerge (calls (mergeMessage st message source s)) = []
      \<or> (\<exists>store'. categoryStore (setPostfix message) = Some store'
            \<and> filter isStoreMerge (calls (mergeMessage st message source s))
                = [StoreMerge store' message])"
    by (rule mergeMessage_merges)
next
  assume h: "outcome (validateMessage st message s) = Resolves (Inr validated)
    \<and> categoryStore (setPostfix message) = None"
  then have v: "outcome (validateMessage st message s) = Resolves (Inr validated)"
    and c: "categoryStore (setPostfix message) = None" by simp_all
  show m: "mergeMessage st message source s =
          (Resolves (Inl (HubError ''bad_request.validation_failure'' ''invalid message type'')),
           calls (validateMessage st message s), s)"
    by (rule mergeMessage_valid_other [OF v c])
  show "filter isStoreMerge (calls (mergeMessage st message source s)) = []"
    by (simp add: m validateMessage_no_merge)
next
  assume h: "outcome (validateMessage st message s) = Resolves (Inr validated)
      \<and> categoryStore (setPostfix message) = Some store"
  then have v: "outcome (validateMessage st message s) = Resolves (Inr validated)"
    and c: "categoryStore (setPostfix message) = Some store" by simp_all
  show m: "mergeMessage st message source s =
            (Resolves (mergeResult (fst (storeMerge st store message s))),
             calls (validateMessage st message s)
               @ StoreMerge store message
                 # mergeLog message source (fst (storeMerge st store message s)),
             snd (storeMerge st store message s))"
    by (rule mergeMessage_valid_category [OF v c])
  show "filter isStoreMerge (calls (mergeMessage st message source s)) = [StoreMerge store message]"
    by (simp add: m validateMessage_no_merge mergeLog_no_merge)
qed

theorem merge_dispatches_by_category_witness:
  "outcome (validateMessage memoryCollaborators castMessage sampleDb) = Resolves (Inr castMessage)
   \<and> categoryStore (setPostfix castMessage) = Some CastStore
   \<and> mergeMessage memoryCollaborators castMessage ''rpc'' sampleDb =
       (Resolves (Inr ()),
        [SignerStoreGetCustodyAddress [1], StoreGetOne (GetSignerAdd [1] [7]),
         ValidationsValidateMessage castMessage,
         StoreMerge CastStore castMessage,
         LoggerInfo (MergeMessageLog [9] [1] (Some CastAdd) ''rpc'')],
        sampleDb\<lparr>merged := [(CastStore, castMessage)]\<rparr>)
   \<and> outcome (validateMessage memoryCollaborators (castMessage\<lparr>setPostfix := OtherPostfix 0\<rparr>) sampleDb)
       = Resolves (Inr (castMessage\<lparr>setPostfix := OtherPostfix 0\<rparr>))
   \<and> categoryStore (setPostfix (castMessage\<lparr>setPostfix := OtherPostfix 0\<rparr>)) = None
   \<and> mergeMessage memoryCollaborators (castMessage\<lparr>setPostfix := OtherPostfix 0\<rparr>) ''rpc'' sampleDb =
       (Resolves (Inl (HubError ''bad_request.validation_failure'' ''invalid message type'')),
        [SignerStoreGetCustodyAddress [1], StoreGetOne (GetSignerAdd [1] [7]),
         ValidationsValidateMessage (castMessage\<lparr>setPostfix := OtherPostfix 0\<rparr>)],
        sampleDb)"
proof -
  have v1: "outcome (validateMessage memoryCollaborators castMessage sampleDb) = Resolves (Inr castMessage)"
    by (simp add: validate_castMessage)
  have c1: "categoryStore (setPostfix castMessage) = Some CastStore"
    by (simp add: castMessage_def)
  have v2': "validateMessage memoryCollaborators (castMessage\<lparr>setPostfix := OtherPostfix 0\<rparr>) sampleDb =
     (Resolves (Inr (castMessage\<lparr>setPostfix := OtherPostfix 0\<rparr>)),
      [SignerStoreGetCustodyAddress [1], StoreGetOne (GetSignerAdd [1] [7]),
       ValidationsValidateMessage (castMessage\<lparr>setPostfix := OtherPostfix 0\<rparr>)], sampleDb)"
  proof -
    have 1: "signerStoreGetCustodyAddress memoryCollaborators sampleDb
               (messageFid (castMessage\<lparr>setPostfix := OtherPostfix 0\<rparr>)) = Resolves [170]"
      by (simp add: memory_simps)
    have 2: "storeGetOne memoryCollaborators sampleDb
               (GetSignerAdd (messageFid (castMessage\<lparr>setPostfix := OtherPostfix 0\<rparr>))
                  (messageSigner (castMessage\<lparr>setPostfix := OtherPostfix 0\<rparr>)))
             = Resolves (signerAddMessage [1] [7])"
      by (simp add: memory_simps)
    have 3: "\<not> isSignerAdd (castMessage\<lparr>setPostfix := OtherPostfix 0\<rparr>)"
      "\<not> isSignerRemove (castMessage\<lparr>setPostfix := OtherPostfix 0\<rparr>)"
      "\<not> isUserDataAdd (castMessage\<lparr>setPostfix := OtherPostfix 0\<rparr>)"
      by (simp_all add: memory_simps)
    have 4: "validationsValidateMessage memoryCollaborators (castMessage\<lparr>setPostfix := OtherPostfix 0\<rparr>)
             = Resolves (Inr (castMessage\<lparr>setPostfix := OtherPostfix 0\<rparr>))"
      by (simp add: memory_simps)
    have 5: "messageFid (castMessage\<lparr>setPostfix := OtherPostfix 0\<rparr>) = [1]"
      "messageSigner (castMessage\<lparr>setPostfix := OtherPostfix 0\<rparr>) = [7]"
      by (simp_all add: castMessage_def)
    show ?thesis
      by (simp add: validateMessage_known [OF 1] step2_valid_signer [OF 3(1) 3(2) 2]
          step3_skipped 3 step4_eq 4 5)
  qed
  then have v2: "outcome (validateMessage memoryCollaborators (castMessage\<lparr>setPostfix := OtherPostfix 0\<rparr>) sampleDb)
       = Resolves (Inr (castMessage\<lparr>setPostfix := OtherPostfix 0\<rparr>))"
    by simp
  have c2: "categoryStore (setPostfix (castMessage\<lparr>setPostfix := OtherPostfix 0\<rparr>)) = None"
    by simp
  have m: "storeMerge memoryCollaborators CastStore castMessage sampleDb =
             (Resolves (), sampleDb\<lparr>merged := [(CastStore, castMessage)]\<rparr>)"
    by (simp add: memoryCollaborators_def memMerge_def sampleDb_def)
  have f: "messageHash castMessage = [9]" "messageFid castMessage = [1]" "dataType castMessage = Some CastAdd"
    by (simp_all add: castMessage_def)
  from merge_dispatches_by_category
         [of memoryCollaborators castMessage sampleDb castMessage "''rpc''" CastStore] v1 c1
  have r1: "mergeMessage memoryCollaborators castMessage ''rpc'' sampleDb =
       (Resolves (Inr ()),
        [SignerStoreGetCustodyAddress [1], StoreGetOne (GetSignerAdd [1] [7]),
         ValidationsValidateMessage castMessage,
         StoreMerge CastStore castMessage,
         LoggerInfo (MergeMessageLog [9] [1] (Some CastAdd) ''rpc'')],
        sampleDb\<lparr>merged := [(CastStore, castMessage)]\<rparr>)"
    by (simp add: validate_castMessage m f)
  from merge_dispatches_by_category
         [of memoryCollaborators "castMessage\<lparr>setPostfix := OtherPostfix 0\<rparr>" sampleDb
            "castMessage\<lparr>setPostfix := OtherPostfix 0\<rparr>" "''rpc''"] v2 c2
  have r2: "mergeMessage memoryCollaborators (castMessage\<lparr>setPostfix := OtherPostfix 0\<rparr>) ''rpc'' sampleDb =
       (Resolves (Inl (HubError ''bad_request.validation_failure'' ''invalid message type'')),
        [SignerStoreGetCustodyAddress [1], StoreGetOne (GetSignerAdd [1] [7]),
         ValidationsValidateMessage (castMessage\<lparr>setPostfix := OtherPostfix 0\<rparr>)],
        sampleDb)"
    by (simp add: v2')
  from v1 c1 r1 v2 c2 r2 show ?thesis by blast
qed

lemma mergeIdRegistryEvent_accepted:
  assumes "idEventType event = IdRegistryRegister \<or> idEventType event = IdRegistryTransfer"
  shows "mergeIdRegistryEvent st event source s =
     (Resolves (mergeResult (fst (signerStoreMergeIdRegistryEvent st event s))),
      [LoggerInfo (MergeIdRegistryEventLog (idEventType event) source),
       SignerStoreMergeIdRegistryEvent event],
      snd (signerStoreMergeIdRegistryEvent st event s))"
  using assms
  by (cases "fst (signerStoreMergeIdRegistryEvent st event s)")
     (auto simp add: mergeIdRegistryEvent_def await_eq loggerInfo_def fromPromise_callWrite)

lemma mergeNameRegistryEvent_accepted:
  assumes "nameEventType event = NameRegistryTransfer \<or> nameEventType event = NameRegistryRenew"
  shows "mergeNameRegistryEvent st event source s =
     (Resolves (mergeResult (fst (userDataStoreMergeNameRegistryEvent st event s))),
      [LoggerInfo (MergeNameRegistryEventLog (nameEventType event) source),
       UserDataStoreMergeNameRegistryEvent event],
      snd (userDataStoreMergeNameRegistryEvent st event s))"
  using assms
  by (cases "fst (userDataStoreMergeNameRegistryEvent st event s)")
     (auto simp add: mergeNameRegistryEvent_def await_eq loggerInfo_def fromPromise_callWrite)

text \<open>
  C8.  \<^verbatim>\<open>mergeIdRegistryEvent\<close> accepts exactly the events of type Register and Transfer
  and hands them to the signer store; \<^verbatim>\<open>mergeNameRegistryEvent\<close> accepts exactly the
  events of type Transfer and Renew and hands them to the user-data store; an accepted
  event is logged and the outcome of the store is returned.  For an event of any other
  type each returns the validation failure \<^verbatim>\<open>invalid event type\<close> and makes no call at
  all.
\<close>

theorem registry_event_kinds:
  "(idEventType idEvent = IdRegistryRegister \<or> idEventType idEvent = IdRegistryTransfer
    \<longrightarrow> mergeIdRegistryEvent st idEvent source s =
          (Resolves (mergeResult (fst (signerStoreMergeIdRegistryEvent st idEvent s))),
           [LoggerInfo (MergeIdRegistryEventLog (idEventType idEvent) source),
            SignerStoreMergeIdRegistryEvent idEvent],
           snd (signerStoreMergeIdRegistryEvent st idEvent s)))
   \<and> (idEventType idEvent \<noteq> IdRegistryRegister \<and> idEventType idEvent \<noteq> IdRegistryTransfer
      \<longrightarrow> mergeIdRegistryEvent st idEvent source s =
            (Resolves (Inl (HubError ''bad_request.validation_failure'' ''invalid event type'')), [], s))
   \<and> (nameEventType nameEvent = NameRegistryTransfer \<or> nameEventType nameEvent = NameRegistryRenew
      \<longrightarrow> mergeNameRegistryEvent st nameEvent source s =
            (Resolves (mergeResult (fst (userDataStoreMergeNameRegistryEvent st nameEvent s))),
             [LoggerInfo (MergeNameRegistryEventLog (nameEventType nameEvent) source),
              UserDataStoreMergeNameRegistryEvent nameEvent],
             snd (userDataStoreMergeNameRegistryEvent st nameEvent s)))
   \<and> (nameEventType nameEvent \<noteq> NameRegistryTransfer \<and> nameEventType nameEvent \<noteq> NameRegistryRenew
      \<longrightarrow> mergeNameRegistryEvent st nameEvent source s =
            (Resolves (Inl (HubError ''bad_request.validation_failure'' ''invalid event type'')), [], s))"
proof (intro conjI impI)
  assume "idEventType idEvent = IdRegistryRegister \<or> idEventType idEvent = IdRegistryTransfer"
  then show "mergeIdRegistryEvent st idEvent source s =
          (Resolves (mergeResult (fst (signerStoreMergeIdRegistryEvent st idEvent s))),
           [LoggerInfo (MergeIdRegistryEventLog (idEventType idEvent) source),
            SignerStoreMergeIdRegistryEvent idEvent],
           snd (signerStoreMergeIdRegistryEvent st idEvent s))"
    by (rule mergeIdRegistryEvent_accepted)
next
  assume "idEventType idEvent \<noteq> IdRegistryRegister \<and> idEventType idEvent \<noteq> IdRegistryTransfer"
  then show "mergeIdRegistryEvent st idEvent source s =
            (Resolves (Inl (HubError ''bad_request.validation_failure'' ''invalid event type'')), [], s)"
    by (simp add: mergeIdRegistryEvent_def resolve_def)
next
  assume "nameEventType nameEvent = NameRegistryTransfer \<or> nameEventType nameEvent = NameRegistryRenew"
  then show "mergeNameRegistryEvent st nameEvent source s =
            (Resolves (mergeResult (fst (userDataStoreMergeNameRegistryEvent st nameEvent s))),
             [LoggerInfo (MergeNameRegistryEventLog (nameEventType nameEvent) source),
              UserDataStoreMergeNameRegistryEvent nameEvent],
             snd (userDataStoreMergeNameRegistryEvent st nameEvent s))"
    by (rule mergeNameRegistryEvent_accepted)
next
  assume "nameEventType nameEvent \<noteq> NameRegistryTransfer \<and> nameEventType nameEvent \<noteq> NameRegistryRenew"
  then show "mergeNameRegistryEvent st nameEvent source s =
            (Resolves (Inl (HubError ''bad_request.validation_failure'' ''invalid event type'')), [], s)"
    by (simp add: mergeNameRegistryEvent_def resolve_def)
qed


theorem registry_event_kinds_witness:
  "mergeIdRegistryEvent memoryCollaborators
     \<lparr>idEventType = IdRegistryTransfer, idEventFid = [1], idEventTo = [204]\<rparr> ''eth'' sampleDb =
     (Resolves (Inr ()),
      [LoggerInfo (MergeIdRegistryEventLog IdRegistryTransfer ''eth''),
       SignerStoreMergeIdRegistryEvent \<lparr>idEventType = IdRegistryTransfer, idEventFid = [1], idEventTo = [204]\<rparr>],
      sampleDb\<lparr>custodyEvents := [\<lparr>idEventType = IdRegistryTransfer, idEventFid = [1], idEventTo = [204]\<rparr>]\<rparr>)
   \<and> mergeIdRegistryEvent memoryCollaborators
       \<lparr>idEventType = OtherIdRegistryEventType 0, idEventFid = [1], idEventTo = [204]\<rparr> ''eth'' sampleDb =
       (Resolves (Inl (HubError ''bad_request.validation_failure'' ''invalid event type'')), [], sampleDb)
   \<and> mergeNameRegistryEvent memoryCollaborators
       \<lparr>nameEventType = NameRegistryRenew, nameEventFname = [99], nameEventTo = [204]\<rparr> ''eth'' sampleDb =
       (Resolves (Inr ()),
        [LoggerInfo (MergeNameRegistryEventLog NameRegistryRenew ''eth''),
         UserDataStoreMergeNameRegistryEvent
           \<lparr>nameEventType = NameRegistryRenew, nameEventFname = [99], nameEventTo = [204]\<rparr>],
        sampleDb\<lparr>nameEvents :=
          \<lparr>nameEventType = NameRegistryRenew, nameEventFname = [99], nameEventTo = [204]\<rparr>
            # nameEvents sampleDb\<rparr>)
   \<and> mergeNameRegistryEvent memoryCollaborators
       \<lparr>nameEventType = OtherNameRegistryEventType 0, nameEventFname = [99], nameEventTo = [204]\<rparr>
       ''eth'' sampleDb =
       (Resolves (Inl (HubError ''bad_request.validation_failure'' ''invalid event type'')), [], sampleDb)"
proof -
  have a: "signerStoreMergeIdRegistryEvent memoryCollaborators
             \<lparr>idEventType = IdRegistryTransfer, idEventFid = [1], idEventTo = [204]\<rparr> sampleDb =
           (Resolves (),
            sampleDb\<lparr>custodyEvents := [\<lparr>idEventType = IdRegistryTransfer, idEventFid = [1], idEventTo = [204]\<rparr>]\<rparr>)"
    by (simp add: memoryCollaborators_def memMergeIdRegistryEvent_def sampleDb_def)
  have b: "userDataStoreMergeNameRegistryEvent memoryCollaborators
             \<lparr>nameEventType = NameRegistryRenew, nameEventFname = [99], nameEventTo = [204]\<rparr> sampleDb =
           (Resolves (),
            sampleDb\<lparr>nameEvents :=
              \<lparr>nameEventType = NameRegistryRenew, nameEventFname = [99], nameEventTo = [204]\<rparr>
                # nameEvents sampleDb\<rparr>)"
    by (simp add: memoryCollaborators_def memMergeNameRegistryEvent_def sampleDb_def textEncode_def)
  from registry_event_kinds
         [of "\<lparr>idEventType = IdRegistryTransfer, idEventFid = [1], idEventTo = [204]\<rparr>"
             memoryCollaborators "''eth''" sampleDb
             "\<lparr>nameEventType = NameRegistryRenew, nameEventFname = [99], nameEventTo = [204]\<rparr>"]
  have 1: "mergeIdRegistryEvent memoryCollaborators
     \<lparr>idEventType = IdRegistryTransfer, idEventFid = [1], idEventTo = [204]\<rparr> ''eth'' sampleDb =
     (Resolves (Inr ()),
      [LoggerInfo (MergeIdRegistryEventLog IdRegistryTransfer ''eth''),
       SignerStoreMergeIdRegistryEvent \<lparr>idEventType = IdRegistryTransfer, idEventFid = [1], idEventTo = [204]\<rparr>],
      sampleDb\<lparr>custodyEvents := [\<lparr>idEventType = IdRegistryTransfer, idEventFid = [1], idEventTo = [204]\<rparr>]\<rparr>)"
    and 2: "mergeNameRegistryEvent memoryCollaborators
       \<lparr>nameEventType = NameRegistryRenew, nameEventFname = [99], nameEventTo = [204]\<rparr> ''eth'' sampleDb =
       (Resolves (Inr ()),
        [LoggerInfo (MergeNameRegistryEventLog NameRegistryRenew ''eth''),
         UserDataStoreMergeNameRegistryEvent
           \<lparr>nameEventType = NameRegistryRenew, nameEventFname = [99], nameEventTo = [204]\<rparr>],
        sampleDb\<lparr>nameEvents :=
          \<lparr>nameEventType = NameRegistryRenew, nameEventFname = [99], nameEventTo = [204]\<rparr>
            # nameEvents sampleDb\<rparr>)"
    by (simp_all add: a b)
  from registry_event_kinds
         [of "\<lparr>idEventType = OtherIdRegistryEventType 0, idEventFid = [1], idEventTo = [204]\<rparr>"
             memoryCollaborators "''eth''" sampleDb
             "\<lparr>nameEventType = OtherNameRegistryEventType 0, nameEventFname = [99], nameEventTo = [204]\<rparr>"]
  have 3: "mergeIdRegistryEvent memoryCollaborators
       \<lparr>idEventType = OtherIdRegistryEventType 0, idEventFid = [1], idEventTo = [204]\<rparr> ''eth'' sampleDb =
       (Resolves (Inl (HubError ''bad_request.validation_failure'' ''invalid event type'')), [], sampleDb)"
    and 4: "mergeNameRegistryEvent memoryCollaborators
       \<lparr>nameEventType = OtherNameRegistryEventType 0, nameEventFname = [99], nameEventTo = [204]\<rparr>
       ''eth'' sampleDb =
       (Resolves (Inl (HubError ''bad_request.validation_failure'' ''invalid event type'')), [], sampleDb)"
    by simp_all
  from 1 2 3 4 show ?thesis by blast
qed

section \<open>Revocation and batches\<close>

lemma await_outcome_cases:
  assumes "\<And>v s'. outcome (k v s') \<noteq> Resolves (Inl e)"
  shows "outcome (await p k s) \<noteq> Resolves (Inl e)"
  using assms by (simp add: await_eq split: promise.splits)

lemma revokeMessagesBySigner_no_error_value:
  "outcome (revokeMessagesBySigner st fid signer s) \<noteq> Resolves (Inl e)"
  unfolding revokeMessagesBySigner_def
  by (intro await_outcome_cases) (simp add: resolve_def)

lemma revoke_rejecting:
  "revokeMessagesBySigner rejectingReactionRevoke [1] [7] mergedDb =
     (Rejects storageFailure,
      [StoreRevokeMessagesBySigner CastStore [1] [7],
       StoreRevokeMessagesBySigner FollowStore [1] [7],
       StoreRevokeMessagesBySigner ReactionStore [1] [7]],
      sampleDb\<lparr>merged := [(VerificationStore, verificationMessage)]\<rparr>)"
  by (simp add: revokeMessagesBySigner_def await_def storeRevokeCall_def callWrite_def
      rejectingReactionRevoke_def memoryCollaborators_def memRevoke_def mergedDb_def sampleDb_def
      castMessage_def verificationMessage_def)

lemma revoke_failing:
  "revokeMessagesBySigner failingReactionRevoke [1] [7] mergedDb =
     (Resolves (Inr ()),
      [StoreRevokeMessagesBySigner CastStore [1] [7],
       StoreRevokeMessagesBySigner FollowStore [1] [7],
       StoreRevokeMessagesBySigner ReactionStore [1] [7],
       StoreRevokeMessagesBySigner VerificationStore [1] [7],
       StoreRevokeMessagesBySigner UserDataStore [1] [7],
       StoreRevokeMessagesBySigner SignerStore [1] [7]],
      sampleDb)"
  by (simp add: revokeMessagesBySigner_def await_def storeRevokeCall_def callWrite_def
      failingReactionRevoke_def memoryCollaborators_def memRevoke_def mergedDb_def sampleDb_def
      castMessage_def verificationMessage_def resolve_def)


lemma validateMessage_plain:
  assumes "signerStoreGetCustodyAddress st s (messageFid message) = Resolves a"
    and "storeGetOne st s (GetSignerAdd (messageFid message) (messageSigner message)) = Resolves sa"
    and "\<not> isSignerAdd message" "\<not> isSignerRemove message" "\<not> isUserDataAdd message"
  shows "validateMessage st message s =
    (validationsValidateMessage st message,
     [SignerStoreGetCustodyAddress (messageFid message),
      StoreGetOne (GetSignerAdd (messageFid message) (messageSigner message)),
      ValidationsValidateMessage message], s)"
  by (simp add: validateMessage_known [OF assms(1)] step2_valid_signer [OF assms(3) assms(4) assms(2)]
      step3_skipped assms(5) step4_eq)

lemma mergeMessagesLoop_resolved:
  assumes "mergeMessage st message source s = (Resolves r, t, s')"
  shows "mergeMessagesLoop st (message # messages) source results s =
     (outcome (mergeMessagesLoop st messages source (results @ [r]) s'),
      t @ calls (mergeMessagesLoop st messages source (results @ [r]) s'),
      finalState (mergeMessagesLoop st messages source (results @ [r]) s'))"
  by (simp add: await_eq assms)

lemma mergeMessagesLoop_rejected:
  assumes "mergeMessage st message source s = (Rejects e, t, s')"
  shows "mergeMessagesLoop st (message # messages) source results s = (Rejects e, t, s')"
  by (simp add: await_eq assms)

lemma mergeMessagesLoop_length:
  "outcome (mergeMessagesLoop st messages source results s) = Resolves rs
   \<Longrightarrow> length rs = length results + length messages"
proof (induction messages arbitrary: results s)
  case Nil
  then show ?case by (simp add: resolve_def)
next
  case (Cons message messages)
  show ?case
  proof (cases "outcome (mergeMessage st message source s)")
    case (Rejects e)
    with Cons.prems show ?thesis by (simp add: await_eq)
  next
    case (Resolves r)
    with Cons.prems have
      "outcome (mergeMessagesLoop st messages source (results @ [r])
                  (finalState (mergeMessage st message source s))) = Resolves rs"
      by (simp add: await_eq)
    from Cons.IH [OF this] show ?thesis by simp
  qed
qed

lemma throwing_lookups:
  "signerStoreGetCustodyAddress throwingValidator (sampleDb\<lparr>merged := ms\<rparr>) [1] = Resolves [170]"
  "storeGetOne throwingValidator (sampleDb\<lparr>merged := ms\<rparr>) (GetSignerAdd [1] [7])
     = Resolves (signerAddMessage [1] [7])"
  by (simp_all add: throwingValidator_def memory_simps)

lemma throwing_first:
  "mergeMessage throwingValidator castMessage ''rpc'' sampleDb =
     (Resolves (Inr ()),
      [SignerStoreGetCustodyAddress [1], StoreGetOne (GetSignerAdd [1] [7]),
       ValidationsValidateMessage castMessage, StoreMerge CastStore castMessage,
       LoggerInfo (MergeMessageLog [9] [1] (Some CastAdd) ''rpc'')],
      sampleDb\<lparr>merged := [(CastStore, castMessage)]\<rparr>)"
proof -
  have f: "messageFid castMessage = [1]" "messageSigner castMessage = [7]"
    "messageHash castMessage = [9]" "dataType castMessage = Some CastAdd"
    "setPostfix castMessage = CastMessage"
    by (simp_all add: castMessage_def)
  have g: "\<not> isSignerAdd castMessage" "\<not> isSignerRemove castMessage" "\<not> isUserDataAdd castMessage"
    by (simp_all add: isSignerAdd_def isSignerRemove_def isUserDataAdd_def f)
  have d: "sampleDb = sampleDb\<lparr>merged := []\<rparr>" by (simp add: sampleDb_def)
  have 1: "signerStoreGetCustodyAddress throwingValidator sampleDb (messageFid castMessage) = Resolves [170]"
    using throwing_lookups(1) [of "[]"] d by (simp add: f)
  have 2: "storeGetOne throwingValidator sampleDb
             (GetSignerAdd (messageFid castMessage) (messageSigner castMessage))
           = Resolves (signerAddMessage [1] [7])"
    using throwing_lookups(2) [of "[]"] d by (simp add: f)
  have 3: "validationsValidateMessage throwingValidator castMessage = Resolves (Inr castMessage)"
    by (simp add: throwingValidator_def f)
  have v: "outcome (validateMessage throwingValidator castMessage sampleDb) = Resolves (Inr castMessage)"
    by (simp add: validateMessage_plain [OF 1 2 g] 3)
  have c: "categoryStore (setPostfix castMessage) = Some CastStore" by (simp add: f)
  have m: "storeMerge throwingValidator CastStore castMessage sampleDb =
             (Resolves (), sampleDb\<lparr>merged := [(CastStore, castMessage)]\<rparr>)"
    by (simp add: throwingValidator_def memoryCollaborators_def memMerge_def sampleDb_def)
  show ?thesis
    by (simp add: mergeMessage_valid_category [OF v c] validateMessage_plain [OF 1 2 g] m f)
qed

lemma throwing_second:
  "mergeMessage throwingValidator (castMessage\<lparr>messageHash := []\<rparr>) ''rpc''
     (sampleDb\<lparr>merged := [(CastStore, castMessage)]\<rparr>) =
     (Rejects (HubError ''bad_request.validation_failure'' ''invalid hash''),
      [SignerStoreGetCustodyAddress [1], StoreGetOne (GetSignerAdd [1] [7]),
       ValidationsValidateMessage (castMessage\<lparr>messageHash := []\<rparr>)],
      sampleDb\<lparr>merged := [(CastStore, castMessage)]\<rparr>)"
proof -
  have f: "messageFid (castMessage\<lparr>messageHash := []\<rparr>) = [1]"
    "messageSigner (castMessage\<lparr>messageHash := []\<rparr>) = [7]"
    "messageHash (castMessage\<lparr>messageHash := []\<rparr>) = []"
    "dataType (castMessage\<lparr>messageHash := []\<rparr>) = Some CastAdd"
    by (simp_all add: castMessage_def)
  have g: "\<not> isSignerAdd (castMessage\<lparr>messageHash := []\<rparr>)"
    "\<not> isSignerRemove (castMessage\<lparr>messageHash := []\<rparr>)"
    "\<not> isUserDataAdd (castMessage\<lparr>messageHash := []\<rparr>)"
    by (simp_all add: isSignerAdd_def isSignerRemove_def isUserDataAdd_def f)
  have 1: "signerStoreGetCustodyAddress throwingValidator (sampleDb\<lparr>merged := [(CastStore, castMessage)]\<rparr>)
             (messageFid (castMessage\<lparr>messageHash := []\<rparr>)) = Resolves [170]"
    by (simp add: f throwing_lookups)
  have 2: "storeGetOne throwingValidator (sampleDb\<lparr>merged := [(CastStore, castMessage)]\<rparr>)
             (GetSignerAdd (messageFid (castMessage\<lparr>messageHash := []\<rparr>))
                (messageSigner (castMessage\<lparr>messageHash := []\<rparr>)))
           = Resolves (signerAddMessage [1] [7])"
    by (simp add: f throwing_lookups)
  have 3: "validationsValidateMessage throwingValidator (castMessage\<lparr>messageHash := []\<rparr>)
           = Rejects (HubError ''bad_request.validation_failure'' ''invalid hash'')"
    by (simp add: throwingValidator_def f)
  have v: "validateMessage throwingValidator (castMessage\<lparr>messageHash := []\<rparr>)
             (sampleDb\<lparr>merged := [(CastStore, castMessage)]\<rparr>) =
           (Rejects (HubError ''bad_request.validation_failure'' ''invalid hash''),
            [SignerStoreGetCustodyAddress [1], StoreGetOne (GetSignerAdd [1] [7]),
             ValidationsValidateMessage (castMessage\<lparr>messageHash := []\<rparr>)],
            sampleDb\<lparr>merged := [(CastStore, castMessage)]\<rparr>)"
    by (simp add: validateMessage_plain [OF 1 2 g] 3 f)
  show ?thesis by (rule mergeMessage_rejected [OF v])
qed

lemma unregistered_first:
  "mergeMessage rejectingNameLookup castMessage ''rpc'' sampleDb =
     (Resolves (Inr ()),
      [SignerStoreGetCustodyAddress [1], StoreGetOne (GetSignerAdd [1] [7]),
       ValidationsValidateMessage castMessage, StoreMerge CastStore castMessage,
       LoggerInfo (MergeMessageLog [9] [1] (Some CastAdd) ''rpc'')],
      sampleDb\<lparr>merged := [(CastStore, castMessage)]\<rparr>)"
proof -
  have f: "messageFid castMessage = [1]" "messageSigner castMessage = [7]"
    "messageHash castMessage = [9]" "dataType castMessage = Some CastAdd"
    "setPostfix castMessage = CastMessage"
    by (simp_all add: castMessage_def)
  have g: "\<not> isSignerAdd castMessage" "\<not> isSignerRemove castMessage" "\<not> isUserDataAdd castMessage"
    by (simp_all add: isSignerAdd_def isSignerRemove_def isUserDataAdd_def f)
  have 1: "signerStoreGetCustodyAddress rejectingNameLookup sampleDb (messageFid castMessage) = Resolves [170]"
    by (simp add: f rejectingNameLookup_def memory_simps)
  have 2: "storeGetOne rejectingNameLookup sampleDb
             (GetSignerAdd (messageFid castMessage) (messageSigner castMessage))
           = Resolves (signerAddMessage [1] [7])"
    by (simp add: f rejectingNameLookup_def memory_simps)
  have 3: "validationsValidateMessage rejectingNameLookup castMessage = Resolves (Inr castMessage)"
    by (simp add: rejectingNameLookup_def memoryCollaborators_def memValidateMessage_def f)
  have v: "outcome (validateMessage rejectingNameLookup castMessage sampleDb) = Resolves (Inr castMessage)"
    by (simp add: validateMessage_plain [OF 1 2 g] 3)
  have c: "categoryStore (setPostfix castMessage) = Some CastStore" by (simp add: f)
  have m: "storeMerge rejectingNameLookup CastStore castMessage sampleDb =
             (Resolves (), sampleDb\<lparr>merged := [(CastStore, castMessage)]\<rparr>)"
    by (simp add: rejectingNameLookup_def memoryCollaborators_def memMerge_def sampleDb_def)
  show ?thesis
    by (simp add: mergeMessage_valid_category [OF v c] validateMessage_plain [OF 1 2 g] m f)
qed

lemma unregistered_second:
  "mergeMessage rejectingNameLookup (fnameMessage (Some ''carol'')) ''rpc''
     (sampleDb\<lparr>merged := [(CastStore, castMessage)]\<rparr>) =
     (Rejects notFound,
      [SignerStoreGetCustodyAddress [1], StoreGetOne (GetSignerAdd [1] [7]),
       IdRegistryEventModelGet [1], NameRegistryEventModelGet (textEncode ''carol'')],
      sampleDb\<lparr>merged := [(CastStore, castMessage)]\<rparr>)"
proof -
  have "validateMessage rejectingNameLookup (fnameMessage (Some ''carol''))
          (sampleDb\<lparr>merged := [(CastStore, castMessage)]\<rparr>) =
        (Rejects notFound,
         [SignerStoreGetCustodyAddress [1], StoreGetOne (GetSignerAdd [1] [7]),
          IdRegistryEventModelGet [1], NameRegistryEventModelGet (textEncode ''carol'')],
         sampleDb\<lparr>merged := [(CastStore, castMessage)]\<rparr>)"
    by (simp add: validateMessage_def validateMessageStep2_def validateMessageStep3_def
        await_def fromPromise_def callRead_def resolve_def Let_def
        rejectingNameLookup_def memory_simps)
  then show ?thesis by (rule mergeMessage_rejected)
qed

text \<open>
  C6.  \<^verbatim>\<open>mergeMessages\<close> returns one result for each message only as long as no merge
  throws.  In the first batch the second of three messages has no hash and the message
  validator throws for it, as the comment of step 4 of \<^verbatim>\<open>validateMessage\<close> says it
  does; in the second batch the second message sets a name that is not registered and the
  lookup of the name rejects.  In both the promise of \<^verbatim>\<open>mergeMessages\<close> rejects: no
  list of results is returned, the first message is merged and the third message is never
  looked at.  A merge that rejects ends the loop (\<open>mergeMessagesLoop_rejected\<close>); when
  the loop does return, it returns one result for each message
  (\<open>mergeMessagesLoop_length\<close>).
\<close>

theorem mergeMessages_aborted_by_exception:
  "mergeMessages throwingValidator [castMessage, castMessage\<lparr>messageHash := []\<rparr>, signerMessage]
     ''rpc'' sampleDb =
     (Rejects (HubError ''bad_request.validation_failure'' ''invalid hash''),
      [SignerStoreGetCustodyAddress [1], StoreGetOne (GetSignerAdd [1] [7]),
       ValidationsValidateMessage castMessage, StoreMerge CastStore castMessage,
       LoggerInfo (MergeMessageLog [9] [1] (Some CastAdd) ''rpc''),
       SignerStoreGetCustodyAddress [1], StoreGetOne (GetSignerAdd [1] [7]),
       ValidationsValidateMessage (castMessage\<lparr>messageHash := []\<rparr>)],
      sampleDb\<lparr>merged := [(CastStore, castMessage)]\<rparr>)
   \<and> mergeMessages rejectingNameLookup [castMessage, fnameMessage (Some ''carol''), signerMessage]
     ''rpc'' sampleDb =
     (Rejects notFound,
      [SignerStoreGetCustodyAddress [1], StoreGetOne (GetSignerAdd [1] [7]),
       ValidationsValidateMessage castMessage, StoreMerge CastStore castMessage,
       LoggerInfo (MergeMessageLog [9] [1] (Some CastAdd) ''rpc''),
       SignerStoreGetCustodyAddress [1], StoreGetOne (GetSignerAdd [1] [7]),
       IdRegistryEventModelGet [1], NameRegistryEventModelGet (textEncode ''carol'')],
      sampleDb\<lparr>merged := [(CastStore, castMessage)]\<rparr>)"
  unfolding mergeMessages_def
  by (simp add: mergeMessagesLoop_resolved [OF throwing_first]
      mergeMessagesLoop_rejected [OF throwing_second]
      mergeMessagesLoop_resolved [OF unregistered_first]
      mergeMessagesLoop_rejected [OF unregistered_second] del: mergeMessagesLoop.simps)

text \<open>
  C3.  \<^verbatim>\<open>revokeMessagesBySigner\<close> does not return the failure of a store as an error
  value; it never returns an error value at all (\<open>revokeMessagesBySigner_no_error_value\<close>).
  Here the revocation of the reaction store, the third of the six, fails for an account
  with a merged cast and a merged verification.  When the store rejects, the promise of
  \<^verbatim>\<open>revokeMessagesBySigner\<close> rejects too: the failure leaves the engine as a fault, after
  the cast was revoked and with the verification still in place.  When the store reports
  the failure by value, the value is dropped: all six stores are called and the engine
  returns \<^verbatim>\<open>ok(undefined)\<close>.
\<close>

theorem revokeMessagesBySigner_rejects:
  "revokeMessagesBySigner rejectingReactionRevoke [1] [7] mergedDb =
     (Rejects storageFailure,
      [StoreRevokeMessagesBySigner CastStore [1] [7],
       StoreRevokeMessagesBySigner FollowStore [1] [7],
       StoreRevokeMessagesBySigner ReactionStore [1] [7]],
      sampleDb\<lparr>merged := [(VerificationStore, verificationMessage)]\<rparr>)
   \<and> revokeMessagesBySigner failingReactionRevoke [1] [7] mergedDb =
     (Resolves (Inr ()),
      [StoreRevokeMessagesBySigner CastStore [1] [7],
       StoreRevokeMessagesBySigner FollowStore [1] [7],
       StoreRevokeMessagesBySigner ReactionStore [1] [7],
       StoreRevokeMessagesBySigner VerificationStore [1] [7],
       StoreRevokeMessagesBySigner UserDataStore [1] [7],
       StoreRevokeMessagesBySigner SignerStore [1] [7]],
      sampleDb)"
  using revoke_rejecting revoke_failing by simp

section \<open>The read accessors\<close>

lemma storeGetManyCall_eq:
  "storeGetManyCall st q s =
     (Resolves (case storeGetMany st s q of Resolves v \<Rightarrow> Inr v | Rejects e \<Rightarrow> Inl e), [StoreGetMany q], s)"
  by (simp add: storeGetManyCall_def fromPromise_callRead)

lemma addsAndRemoves_reads_store:
  "\<exists>t. calls (addsAndRemoves st addsQuery removesQuery s) = StoreGetMany addsQuery # t"
  by (simp add: addsAndRemoves_def await_eq storeGetManyCall_eq)

lemma invalid_fid_fails_fast:
  assumes "validateFid st fid = Inl e"
  shows "getCast st fid tsHash s = (Resolves (Inl e), [], s)"
    and "getCastsByFid st fid s = (Resolves (Inl e), [], s)"
    and "getFollow st fid user s = (Resolves (Inl e), [], s)"
    and "getFollowsByFid st fid s = (Resolves (Inl e), [], s)"
    and "getReaction st fid reactionType cast s = (Resolves (Inl e), [], s)"
    and "getReactionsByFid st fid optionalType s = (Resolves (Inl e), [], s)"
    and "getVerification st fid address s = (Resolves (Inl e), [], s)"
    and "getVerificationsByFid st fid s = (Resolves (Inl e), [], s)"
    and "getSigner st fid signerPubKey s = (Resolves (Inl e), [], s)"
    and "getSignersByFid st fid s = (Resolves (Inl e), [], s)"
    and "getCustodyEvent st fid s = (Resolves (Inl e), [], s)"
    and "getUserData st fid userDataType s = (Resolves (Inl e), [], s)"
    and "getUserDataByFid st fid s = (Resolves (Inl e), [], s)"
  using assms
  by (simp_all add: getCast_def getCastsByFid_def getFollow_def getFollowsByFid_def getReaction_def
      getReactionsByFid_def getVerification_def getVerificationsByFid_def getSigner_def
      getSignersByFid_def getCustodyEvent_def getUserData_def getUserDataByFid_def resolve_def)

lemma invalid_second_key_fails_fast:
  assumes "validateFid st fid = Inr validatedFid"
  shows "validateTsHash st tsHash = Inl e \<Longrightarrow> getCast st fid tsHash s = (Resolves (Inl e), [], s)"
    and "validateUserId st user = Inl e \<Longrightarrow> getFollow st fid user s = (Resolves (Inl e), [], s)"
    and "validateReactionType st reactionType = Inl e
         \<Longrightarrow> getReaction st fid reactionType cast s = (Resolves (Inl e), [], s)"
    and "validateReactionType st reactionType = Inr validatedType \<Longrightarrow> validateCastId st cast = Inl e
         \<Longrightarrow> getReaction st fid reactionType cast s = (Resolves (Inl e), [], s)"
    and "validateEthAddress st address = Inl e
         \<Longrightarrow> getVerification st fid address s = (Resolves (Inl e), [], s)"
    and "validateEd25519PublicKey st signerPubKey = Inl e
         \<Longrightarrow> getSigner st fid signerPubKey s = (Resolves (Inl e), [], s)"
  using assms
  by (simp_all add: getCast_def getFollow_def getReaction_def getVerification_def getSigner_def
      resolve_def)

lemma invalid_cast_or_user_fails_fast:
  shows "validateCastId st cast = Inl e \<Longrightarrow> getCastsByParent st cast s = (Resolves (Inl e), [], s)"
    and "validateCastId st cast = Inl e
         \<Longrightarrow> getReactionsByCast st cast optionalType s = (Resolves (Inl e), [], s)"
    and "validateUserId st user = Inl e \<Longrightarrow> getCastsByMention st user s = (Resolves (Inl e), [], s)"
    and "validateUserId st user = Inl e \<Longrightarrow> getFollowsByUser st user s = (Resolves (Inl e), [], s)"
  by (simp_all add: getCastsByParent_def getReactionsByCast_def getCastsByMention_def
      getFollowsByUser_def resolve_def)

text \<open>
  The accessors that validate.  Each of them checks its key arguments in the order of the
  source and, at the first argument that the validation refuses, returns the error of
  that validation without any call to a store.  The five \<^verbatim>\<open>getAll...MessagesByFid\<close>
  accessors do not validate: whatever the account id, their first call reads the adds of
  that account id from the store.
\<close>

theorem read_accessors_validate_first:
  "(validateFid st fid = Inl e
    \<longrightarrow> getCast st fid tsHash s = (Resolves (Inl e), [], s)
      \<and> getCastsByFid st fid s = (Resolves (Inl e), [], s)
      \<and> getFollow st fid user s = (Resolves (Inl e), [], s)
      \<and> getFollowsByFid st fid s = (Resolves (Inl e), [], s)
      \<and> getReaction st fid reactionType cast s = (Resolves (Inl e), [], s)
      \<and> getReactionsByFid st fid optionalType s = (Resolves (Inl e), [], s)
      \<and> getVerification st fid address s = (Resolves (Inl e), [], s)
      \<and> getVerificationsByFid st fid s = (Resolves (Inl e), [], s)
      \<and> getSigner st fid signerPubKey s = (Resolves (Inl e), [], s)
      \<and> getSignersByFid st fid s = (Resolves (Inl e), [], s)
      \<and> getCustodyEvent st fid s = (Resolves (Inl e), [], s)
      \<and> getUserData st fid userDataType s = (Resolves (Inl e), [], s)
      \<and> getUserDataByFid st fid s = (Resolves (Inl e), [], s))
   \<and> (validateFid st fid = Inr validatedFid \<and> validateTsHash st tsHash = Inl e
      \<longrightarrow> getCast st fid tsHash s = (Resolves (Inl e), [], s))
   \<and> (validateFid st fid = Inr validatedFid \<and> validateUserId st user = Inl e
      \<longrightarrow> getFollow st fid user s = (Resolves (Inl e), [], s))
   \<and> (validateFid st fid = Inr validatedFid \<and> validateReactionType st reactionType = Inl e
      \<longrightarrow> getReaction st fid reactionType cast s = (Resolves (Inl e), [], s))
   \<and> (validateFid st fid = Inr validatedFid \<and> validateReactionType st reactionType = Inr validatedType
      \<and> validateCastId st cast = Inl e
      \<longrightarrow> getReaction st fid reactionType cast s = (Resolves (Inl e), [], s))
   \<and> (validateFid st fid = Inr validatedFid \<and> validateEthAddress st address = Inl e
      \<longrightarrow> getVerification st fid address s = (Resolves (Inl e), [], s))
   \<and> (validateFid st fid = Inr validatedFid \<and> validateEd25519PublicKey st signerPubKey = Inl e
      \<longrightarrow> getSigner st fid signerPubKey s = (Resolves (Inl e), [], s))
   \<and> (validateCastId st cast = Inl e
      \<longrightarrow> getCastsByParent st cast s = (Resolves (Inl e), [], s)
        \<and> getReactionsByCast st cast optionalType s = (Resolves (Inl e), [], s))
   \<and> (validateUserId st user = Inl e
      \<longrightarrow> getCastsByMention st user s = (Resolves (Inl e), [], s)
        \<and> getFollowsByUser st user s = (Resolves (Inl e), [], s))
   \<and> (\<exists>t. calls (getAllCastMessagesByFid st fid s) = StoreGetMany (GetCastAddsByUser fid) # t)
   \<and> (\<exists>t. calls (getAllFollowMessagesByFid st fid s) = StoreGetMany (GetFollowAddsByUser fid) # t)
   \<and> (\<exists>t. calls (getAllReactionMessagesByFid st fid s)
            = StoreGetMany (GetReactionAddsByUser fid None) # t)
   \<and> (\<exists>t. calls (getAllVerificationMessagesByFid st fid s)
            = StoreGetMany (GetVerificationAddsByUser fid) # t)
   \<and> (\<exists>t. calls (getAllSignerMessagesByFid st fid s) = StoreGetMany (GetSignerAddsByUser fid) # t)"
proof (intro conjI impI)
  assume a: "validateFid st fid = Inl e"
  show "getCast st fid tsHash s = (Resolves (Inl e), [], s)" by (rule invalid_fid_fails_fast [OF a])
  show "getCastsByFid st fid s = (Resolves (Inl e), [], s)" by (rule invalid_fid_fails_fast [OF a])
  show "getFollow st fid user s = (Resolves (Inl e), [], s)" by (rule invalid_fid_fails_fast [OF a])
  show "getFollowsByFid st fid s = (Resolves (Inl e), [], s)" by (rule invalid_fid_fails_fast [OF a])
  show "getReaction st fid reactionType cast s = (Resolves (Inl e), [], s)"
    by (rule invalid_fid_fails_fast [OF a])
  show "getReactionsByFid st fid optionalType s = (Resolves (Inl e), [], s)"
    by (rule invalid_fid_fails_fast [OF a])
  show "getVerification st fid address s = (Resolves (Inl e), [], s)"
    by (rule invalid_fid_fails_fast [OF a])
  show "getVerificationsByFid st fid s = (Resolves (Inl e), [], s)"
    by (rule invalid_fid_fails_fast [OF a])
  show "getSigner st fid signerPubKey s = (Resolves (Inl e), [], s)"
    by (rule invalid_fid_fails_fast [OF a])
  show "getSignersByFid st fid s = (Resolves (Inl e), [], s)" by (rule invalid_fid_fails_fast [OF a])
  show "getCustodyEvent st fid s = (Resolves (Inl e), [], s)" by (rule invalid_fid_fails_fast [OF a])
  show "getUserData st fid userDataType s = (Resolves (Inl e), [], s)"
    by (rule invalid_fid_fails_fast [OF a])
  show "getUserDataByFid st fid s = (Resolves (Inl e), [], s)" by (rule invalid_fid_fails_fast [OF a])
next
  assume "validateFid st fid = Inr validatedFid \<and> validateTsHash st tsHash = Inl e"
  then show "getCast st fid tsHash s = (Resolves (Inl e), [], s)"
    by (simp add: invalid_second_key_fails_fast(1))
next
  assume "validateFid st fid = Inr validatedFid \<and> validateUserId st user = Inl e"
  then show "getFollow st fid user s = (Resolves (Inl e), [], s)"
    by (simp add: invalid_second_key_fails_fast(2))
next
  assume "validateFid st fid = Inr validatedFid \<and> validateReactionType st reactionType = Inl e"
  then show "getReaction st fid reactionType cast s = (Resolves (Inl e), [], s)"
    by (simp add: invalid_second_key_fails_fast(3))
next
  assume "validateFid st fid = Inr validatedFid \<and> validateReactionType st reactionType = Inr validatedType
      \<and> validateCastId st cast = Inl e"
  then show "getReaction st fid reactionType cast s = (Resolves (Inl e), [], s)"
    by (simp add: invalid_second_key_fails_fast(4))
next
  assume "validateFid st fid = Inr validatedFid \<and> validateEthAddress st address = Inl e"
  then show "getVerification st fid address s = (Resolves (Inl e), [], s)"
    by (simp add: invalid_second_key_fails_fast(5))
next
  assume "validateFid st fid = Inr validatedFid \<and> validateEd25519PublicKey st signerPubKey = Inl e"
  then show "getSigner st fid signerPubKey s = (Resolves (Inl e), [], s)"
    by (simp add: invalid_second_key_fails_fast(6))
next
  assume a: "validateCastId st cast = Inl e"
  show "getCastsByParent st cast s = (Resolves (Inl e), [], s)"
    by (rule invalid_cast_or_user_fails_fast(1) [OF a])
  show "getReactionsByCast st cast optionalType s = (Resolves (Inl e), [], s)"
    by (rule invalid_cast_or_user_fails_fast(2) [OF a])
next
  assume a: "validateUserId st user = Inl e"
  show "getCastsByMention st user s = (Resolves (Inl e), [], s)"
    by (rule invalid_cast_or_user_fails_fast(3) [OF a])
  show "getFollowsByUser st user s = (Resolves (Inl e), [], s)"
    by (rule invalid_cast_or_user_fails_fast(4) [OF a])
next
  show "\<exists>t. calls (getAllCastMessagesByFid st fid s) = StoreGetMany (GetCastAddsByUser fid) # t"
    unfolding getAllCastMessagesByFid_def by (rule addsAndRemoves_reads_store)
  show "\<exists>t. calls (getAllFollowMessagesByFid st fid s) = StoreGetMany (GetFollowAddsByUser fid) # t"
    unfolding getAllFollowMessagesByFid_def by (rule addsAndRemoves_reads_store)
  show "\<exists>t. calls (getAllReactionMessagesByFid st fid s)
            = StoreGetMany (GetReactionAddsByUser fid None) # t"
    unfolding getAllReactionMessagesByFid_def by (rule addsAndRemoves_reads_store)
  show "\<exists>t. calls (getAllVerificationMessagesByFid st fid s)
            = StoreGetMany (GetVerificationAddsByUser fid) # t"
    unfolding getAllVerificationMessagesByFid_def by (rule addsAndRemoves_reads_store)
  show "\<exists>t. calls (getAllSignerMessagesByFid st fid s) = StoreGetMany (GetSignerAddsByUser fid) # t"
    unfolding getAllSignerMessagesByFid_def by (rule addsAndRemoves_reads_store)
qed

theorem read_accessors_validate_first_witness:
  "validateFid memoryCollaborators [] = Inl (HubError ''bad_request.validation_failure'' ''fid is missing'')
   \<and> getCastsByFid memoryCollaborators [] sampleDb =
       (Resolves (Inl (HubError ''bad_request.validation_failure'' ''fid is missing'')), [], sampleDb)
   \<and> getSigner memoryCollaborators [] [] sampleDb =
       (Resolves (Inl (HubError ''bad_request.validation_failure'' ''fid is missing'')), [], sampleDb)
   \<and> validateFid memoryCollaborators [1] = Inr [1]
   \<and> validateTsHash memoryCollaborators [] =
       Inl (HubError ''bad_request.validation_failure'' ''tsHash must be 20 bytes'')
   \<and> getCast memoryCollaborators [1] [] sampleDb =
       (Resolves (Inl (HubError ''bad_request.validation_failure'' ''tsHash must be 20 bytes'')), [], sampleDb)
   \<and> validateEd25519PublicKey memoryCollaborators [7] =
       Inl (HubError ''bad_request.validation_failure'' ''publicKey must be 32 bytes'')
   \<and> getSigner memoryCollaborators [1] [7] sampleDb =
       (Resolves (Inl (HubError ''bad_request.validation_failure'' ''publicKey must be 32 bytes'')), [], sampleDb)
   \<and> validateEthAddress memoryCollaborators [170] =
       Inl (HubError ''bad_request.validation_failure'' ''address must be 20 bytes'')
   \<and> getVerification memoryCollaborators [1] [170] sampleDb =
       (Resolves (Inl (HubError ''bad_request.validation_failure'' ''address must be 20 bytes'')), [], sampleDb)
   \<and> validateReactionType memoryCollaborators 1 = Inr 1
   \<and> validateCastId memoryCollaborators (CastId None None) =
       Inl (HubError ''bad_request.validation_failure'' ''castId is missing'')
   \<and> getReaction memoryCollaborators [1] 1 (CastId None None) sampleDb =
       (Resolves (Inl (HubError ''bad_request.validation_failure'' ''castId is missing'')), [], sampleDb)
   \<and> getCastsByParent memoryCollaborators (CastId None None) sampleDb =
       (Resolves (Inl (HubError ''bad_request.validation_failure'' ''castId is missing'')), [], sampleDb)
   \<and> validateUserId memoryCollaborators (UserId None) =
       Inl (HubError ''bad_request.validation_failure'' ''userId is missing'')
   \<and> getFollowsByUser memoryCollaborators (UserId None) sampleDb =
       (Resolves (Inl (HubError ''bad_request.validation_failure'' ''userId is missing'')), [], sampleDb)"
proof -
  have v: "validateFid memoryCollaborators [] = Inl (HubError ''bad_request.validation_failure'' ''fid is missing'')"
    "validateFid memoryCollaborators [1] = Inr [1]"
    "validateTsHash memoryCollaborators [] =
       Inl (HubError ''bad_request.validation_failure'' ''tsHash must be 20 bytes'')"
    "validateEd25519PublicKey memoryCollaborators [7] =
       Inl (HubError ''bad_request.validation_failure'' ''publicKey must be 32 bytes'')"
    "validateEthAddress memoryCollaborators [170] =
       Inl (HubError ''bad_request.validation_failure'' ''address must be 20 bytes'')"
    "validateReactionType memoryCollaborators 1 = Inr 1"
    "validateCastId memoryCollaborators (CastId None None) =
       Inl (HubError ''bad_request.validation_failure'' ''castId is missing'')"
    "validateUserId memoryCollaborators (UserId None) =
       Inl (HubError ''bad_request.validation_failure'' ''userId is missing'')"
    by (simp_all add: memoryCollaborators_def memValidateFid_def memValidateTsHash_def
        memValidateEd25519PublicKey_def memValidateEthAddress_def memValidateReactionType_def)
  from read_accessors_validate_first
         [where st = memoryCollaborators and fid = "[]" and s = sampleDb and signerPubKey = "[]"
            and e = "HubError ''bad_request.validation_failure'' ''fid is missing''"]
       v(1)
  have 1: "getCastsByFid memoryCollaborators [] sampleDb =
       (Resolves (Inl (HubError ''bad_request.validation_failure'' ''fid is missing'')), [], sampleDb)"
    and 2: "getSigner memoryCollaborators [] [] sampleDb =
       (Resolves (Inl (HubError ''bad_request.validation_failure'' ''fid is missing'')), [], sampleDb)"
    by simp_all
  from read_accessors_validate_first
         [where st = memoryCollaborators and fid = "[1]" and s = sampleDb and validatedFid = "[1]"
            and tsHash = "[]"
            and e = "HubError ''bad_request.validation_failure'' ''tsHash must be 20 bytes''"]
       v(2) v(3)
  have 3: "getCast memoryCollaborators [1] [] sampleDb =
       (Resolves (Inl (HubError ''bad_request.validation_failure'' ''tsHash must be 20 bytes'')), [], sampleDb)"
    by simp
  from read_accessors_validate_first
         [where st = memoryCollaborators and fid = "[1]" and s = sampleDb and validatedFid = "[1]"
            and signerPubKey = "[7]"
            and e = "HubError ''bad_request.validation_failure'' ''publicKey must be 32 bytes''"]
       v(2) v(4)
  have 4: "getSigner memoryCollaborators [1] [7] sampleDb =
       (Resolves (Inl (HubError ''bad_request.validation_failure'' ''publicKey must be 32 bytes'')), [], sampleDb)"
    by simp
  from read_accessors_validate_first
         [where st = memoryCollaborators and fid = "[1]" and s = sampleDb and validatedFid = "[1]"
            and address = "[170]"
            and e = "HubError ''bad_request.validation_failure'' ''address must be 20 bytes''"]
       v(2) v(5)
  have 5: "getVerification memoryCollaborators [1] [170] sampleDb =
       (Resolves (Inl (HubError ''bad_request.validation_failure'' ''address must be 20 bytes'')), [], sampleDb)"
    by simp
  from read_accessors_validate_first
         [where st = memoryCollaborators and fid = "[1]" and s = sampleDb and validatedFid = "[1]"
            and reactionType = 1 and validatedType = 1 and cast = "CastId None None"
            and e = "HubError ''bad_request.validation_failure'' ''castId is missing''"]
       v(2) v(6) v(7)
  have 6: "getReaction memoryCollaborators [1] 1 (CastId None None) sampleDb =
       (Resolves (Inl (HubError ''bad_request.validation_failure'' ''castId is missing'')), [], sampleDb)"
    and 7: "getCastsByParent memoryCollaborators (CastId None None) sampleDb =
       (Resolves (Inl (HubError ''bad_request.validation_failure'' ''castId is missing'')), [], sampleDb)"
    by simp_all
  from read_accessors_validate_first
         [where st = memoryCollaborators and s = sampleDb and user = "UserId None"
            and e = "HubError ''bad_request.validation_failure'' ''userId is missing''"]
       v(8)
  have 8: "getFollowsByUser memoryCollaborators (UserId None) sampleDb =
       (Resolves (Inl (HubError ''bad_request.validation_failure'' ''userId is missing'')), [], sampleDb)"
    by simp
  from v 1 2 3 4 5 6 7 8 show ?thesis by blast
qed

text \<open>
  C7.  Not every read accessor validates its key arguments before it reads a store.  For
  the empty account id, which \<^verbatim>\<open>validateFid\<close> refuses and for which \<^verbatim>\<open>getCastsByFid\<close>
  fails at once, \<^verbatim>\<open>getAllCastMessagesByFid\<close> reads the adds and the removes of the cast
  store and returns a success.
\<close>

theorem getAllCastMessagesByFid_skips_validation:
  "validateFid memoryCollaborators [] = Inl (HubError ''bad_request.validation_failure'' ''fid is missing'')
   \<and> getCastsByFid memoryCollaborators [] sampleDb =
       (Resolves (Inl (HubError ''bad_request.validation_failure'' ''fid is missing'')), [], sampleDb)
   \<and> getAllCastMessagesByFid memoryCollaborators [] sampleDb =
       (Resolves (Inr []),
        [StoreGetMany (GetCastAddsByUser []), StoreGetMany (GetCastRemovesByUser [])],
        sampleDb)"
  by (simp add: getAllCastMessagesByFid_def addsAndRemoves_def getCastsByFid_def await_def
      storeGetManyCall_def fromPromise_def callRead_def resolve_def memoryCollaborators_def
      memValidateFid_def mergedOf_def sampleDb_def)

end
